theory Spec2Isabelle
  imports Main "HOL-Library.Word"
begin

unbundle bit_operations_syntax

section \<open>Instruction descriptors\<close>

type_synonym u32 = "32 word"
type_synonym u64 = "64 word"

text \<open>
  A C++ call either returns a value or ends the process through \<open>std::abort()\<close>.
  \<open>Return None\<close> is the \<open>nullptr\<close> that \<open>Core::decode\<close> hands back for an
  opcode it does not know.
\<close>

datatype 'a outcome = Abort | Return 'a

datatype Opcode =
  Opcode_R | Opcode_L | Opcode_I | Opcode_S | Opcode_B | Opcode_LUI | Opcode_AUIPC
  | Opcode_JAL | Opcode_JALR | Opcode_SYS | Opcode_FENCE

datatype InstType =
  InstType_R | InstType_I | InstType_S | InstType_B | InstType_U | InstType_J

datatype AluOp =
  AluOp_NONE | AluOp_ADD | AluOp_SUB | AluOp_SLL | AluOp_SRL | AluOp_SRA
  | AluOp_LTI | AluOp_LTU | AluOp_XOR | AluOp_OR | AluOp_AND

datatype BrOp =
  BrOp_NONE | BrOp_BEQ | BrOp_BNE | BrOp_BLT | BrOp_BGE | BrOp_BLTU | BrOp_BGEU
  | BrOp_JAL | BrOp_JALR

datatype FUType = FUType_ALU | FUType_BRU | FUType_LSU | FUType_SFU | FUType_NONE

record ExeFlags =
  use_rd :: bool
  use_rs1 :: bool
  use_rs2 :: bool
  use_imm :: bool
  alu_s1_PC :: bool
  alu_s1_inv :: bool
  alu_s1_rs1 :: bool
  alu_s2_imm :: bool
  alu_s2_csr :: bool
  is_load :: bool
  is_store :: bool
  is_csr :: bool
  is_exit :: bool

text \<open>The fields of \<open>Instr\<close> carry the names of its getters.\<close>

record Instr =
  getId :: u64
  getPC :: u32
  getOpcode :: Opcode
  getRd :: u32
  getRs1 :: u32
  getRs2 :: u32
  getImm :: u32
  getFunc3 :: u32
  getFunc7 :: u32
  getAluOp :: AluOp
  getBrOp :: BrOp
  getExeFlags :: ExeFlags
  getFUType :: FUType

section \<open>The decoder (decode.cpp)\<close>

text \<open>
  Modelled from the spec: the numeric values of \<open>enum class Opcode\<close> live in
  \<open>types.h\<close>, which is not among the sources. The simulator is an RV32I one and the
  spec's scenarios (\<open>0x00500093\<close> is ADDI, \<open>0x12345237\<close> is LUI, \<open>0x00000073\<close> is
  ECALL) fix the standard major opcodes.
\<close>

fun Opcode_value :: "Opcode \<Rightarrow> u32" where
  "Opcode_value Opcode_R = 0x33"
| "Opcode_value Opcode_L = 0x03"
| "Opcode_value Opcode_I = 0x13"
| "Opcode_value Opcode_S = 0x23"
| "Opcode_value Opcode_B = 0x63"
| "Opcode_value Opcode_LUI = 0x37"
| "Opcode_value Opcode_AUIPC = 0x17"
| "Opcode_value Opcode_JAL = 0x6f"
| "Opcode_value Opcode_JALR = 0x67"
| "Opcode_value Opcode_SYS = 0x73"
| "Opcode_value Opcode_FENCE = 0x0f"

text \<open>\<open>sc_instTable\<close>: the keys, in the order of the initialiser, and the mapped types.\<close>

definition sc_instTable_keys :: "Opcode list" where
  "sc_instTable_keys =
     [Opcode_R, Opcode_L, Opcode_I, Opcode_S, Opcode_B, Opcode_LUI, Opcode_AUIPC,
      Opcode_JAL, Opcode_JALR, Opcode_SYS, Opcode_FENCE]"

fun sc_instTable :: "Opcode \<Rightarrow> InstType" where
  "sc_instTable Opcode_R = InstType_R"
| "sc_instTable Opcode_L = InstType_I"
| "sc_instTable Opcode_I = InstType_I"
| "sc_instTable Opcode_S = InstType_S"
| "sc_instTable Opcode_B = InstType_B"
| "sc_instTable Opcode_LUI = InstType_U"
| "sc_instTable Opcode_AUIPC = InstType_U"
| "sc_instTable Opcode_JAL = InstType_J"
| "sc_instTable Opcode_JALR = InstType_I"
| "sc_instTable Opcode_SYS = InstType_I"
| "sc_instTable Opcode_FENCE = InstType_I"

text \<open>
  \<open>sc_instTable.find(Opcode(bits))\<close>: the enumerator whose value is \<open>bits\<close>, or
  \<open>None\<close> for \<open>sc_instTable.end()\<close>.
\<close>

definition sc_instTable_find :: "u32 \<Rightarrow> Opcode option" where
  "sc_instTable_find bits = find (\<lambda>opc. Opcode_value opc = bits) sc_instTable_keys"

text \<open>The \<open>enum Constants\<close> of decode.cpp.\<close>

definition width_reg :: nat where "width_reg = 5"
definition width_i_imm :: nat where "width_i_imm = 12"
definition width_j_imm :: nat where "width_j_imm = 20"
definition shift_opcode :: nat where "shift_opcode = 0"
definition shift_rd :: nat where "shift_rd = 7"
definition shift_func3 :: nat where "shift_func3 = 12"
definition shift_rs1 :: nat where "shift_rs1 = 15"
definition shift_rs2 :: nat where "shift_rs2 = 20"
definition shift_func7 :: nat where "shift_func7 = 25"
definition mask_opcode :: u32 where "mask_opcode = 0x7f"
definition mask_reg :: u32 where "mask_reg = 0x1f"
definition mask_func3 :: u32 where "mask_func3 = 0x7"
definition mask_func7 :: u32 where "mask_func7 = 0x7f"

text \<open>
  Modelled from the spec: \<open>sext\<close> comes from \<open>util.h\<close>, which is not among the
  sources. The glossary: \<open>sext(v, n)\<close> sign-extends the low \<open>n\<close> bits of \<open>v\<close> to 32
  bits. Bit \<open>n - 1\<close> is the sign; above it the result repeats the sign, below it the
  result is \<open>v\<close>.
\<close>

definition sext :: "u32 \<Rightarrow> nat \<Rightarrow> u32" where
  "sext word width =
     (if bit word (width - 1) then word OR NOT (mask width) else word AND mask width)"

definition no_flags :: ExeFlags where
  "no_flags =
     \<lparr>use_rd = False, use_rs1 = False, use_rs2 = False, use_imm = False,
      alu_s1_PC = False, alu_s1_inv = False, alu_s1_rs1 = False, alu_s2_imm = False,
      alu_s2_csr = False, is_load = False, is_store = False, is_csr = False,
      is_exit = False\<rparr>"

text \<open>
  The first switch of \<open>Core::decode\<close> (instruction type decoding): the flags after
  \<open>memset\<close> and the immediate. The \<open>default\<close> branches call \<open>std::abort()\<close>.
\<close>

definition decode_type ::
  "Opcode \<Rightarrow> u32 \<Rightarrow> u32 \<Rightarrow> u32 \<Rightarrow> u32 \<Rightarrow> u32 \<Rightarrow> (ExeFlags \<times> u32) outcome" where
  "decode_type opcode instr_code func3 func7 rd rs2 =
     (case sc_instTable opcode of
        InstType_R \<Rightarrow>
          Return (no_flags\<lparr>use_rd := True, use_rs1 := True, use_rs2 := True\<rparr>, 0)
      | InstType_I \<Rightarrow>
          (case opcode of
             Opcode_I \<Rightarrow>
               Return (no_flags\<lparr>use_rd := True, use_rs1 := True, use_imm := True,
                                alu_s2_imm := True\<rparr>,
                       if func3 = 0x1 \<or> func3 = 0x5 then rs2
                       else sext (drop_bit shift_rs2 instr_code) width_i_imm)
           | Opcode_L \<Rightarrow>
               Return (no_flags\<lparr>use_rd := True, use_rs1 := True, use_imm := True,
                                alu_s2_imm := True\<rparr>,
                       sext (drop_bit shift_rs2 instr_code) width_i_imm)
           | Opcode_JALR \<Rightarrow>
               Return (no_flags\<lparr>use_rd := True, use_rs1 := True, use_imm := True,
                                alu_s2_imm := True\<rparr>,
                       sext (drop_bit shift_rs2 instr_code) width_i_imm)
           | Opcode_SYS \<Rightarrow>
               Return (if func3 \<noteq> 0
                       then if func3 < 5
                            then no_flags\<lparr>use_imm := True, use_rd := True, use_rs1 := True\<rparr>
                            else no_flags\<lparr>use_imm := True, use_rd := True\<rparr>
                       else no_flags\<lparr>use_imm := True\<rparr>,
                       drop_bit shift_rs2 instr_code)
           | Opcode_FENCE \<Rightarrow> Return (no_flags, 0)
           | _ \<Rightarrow> Abort)
      | InstType_S \<Rightarrow>
          Return (no_flags\<lparr>use_rs1 := True, use_rs2 := True, use_imm := True,
                           alu_s2_imm := True\<rparr>,
                  sext (push_bit width_reg func7 OR rd) width_i_imm)
      | InstType_B \<Rightarrow>
          (let bit_11 = rd AND 0x1;
               bits_4_1 = drop_bit 1 rd;
               bit_10_5 = func7 AND 0x3f;
               bit_12 = drop_bit 6 func7;
               imm12 = push_bit 1 bits_4_1 OR push_bit 5 bit_10_5 OR push_bit 11 bit_11
                       OR push_bit 12 bit_12
           in Return (no_flags\<lparr>use_rs1 := True, use_rs2 := True, use_imm := True,
                                alu_s2_imm := True\<rparr>,
                      sext imm12 (width_i_imm + 1)))
      | InstType_U \<Rightarrow>
          Return (no_flags\<lparr>use_rd := True, use_imm := True, alu_s2_imm := True\<rparr>,
                  push_bit shift_func3 (drop_bit shift_func3 instr_code))
      | InstType_J \<Rightarrow>
          (let unordered = drop_bit shift_func3 instr_code;
               bits_19_12 = unordered AND 0xff;
               bit_11 = drop_bit 8 unordered AND 0x1;
               bits_10_1 = drop_bit 9 unordered AND 0x3ff;
               bit_20 = drop_bit 19 unordered AND 0x1;
               imm20 = push_bit 1 bits_10_1 OR push_bit 11 bit_11 OR push_bit 12 bits_19_12
                       OR push_bit 20 bit_20
           in Return (no_flags\<lparr>use_rd := True, use_imm := True, alu_s2_imm := True\<rparr>,
                      sext imm20 (width_j_imm + 1))))"

text \<open>The \<open>switch (func3)\<close> shared by \<open>Opcode::R\<close> and \<open>Opcode::I\<close>.\<close>

definition decode_alu :: "Opcode \<Rightarrow> u32 \<Rightarrow> u32 \<Rightarrow> AluOp outcome" where
  "decode_alu opcode func3 func7 =
     (if func3 = 0 then
        (if opcode = Opcode_R \<and> func7 \<noteq> 0 then Return AluOp_SUB else Return AluOp_ADD)
      else if func3 = 1 then Return AluOp_SLL
      else if func3 = 2 then Return AluOp_LTI
      else if func3 = 3 then Return AluOp_LTU
      else if func3 = 4 then Return AluOp_XOR
      else if func3 = 5 then Return (if func7 \<noteq> 0 then AluOp_SRA else AluOp_SRL)
      else if func3 = 6 then Return AluOp_OR
      else if func3 = 7 then Return AluOp_AND
      else Abort)"

text \<open>The \<open>switch (func3)\<close> of \<open>Opcode::B\<close>.\<close>

definition decode_br :: "u32 \<Rightarrow> BrOp outcome" where
  "decode_br func3 =
     (if func3 = 0 then Return BrOp_BEQ
      else if func3 = 1 then Return BrOp_BNE
      else if func3 = 4 then Return BrOp_BLT
      else if func3 = 5 then Return BrOp_BGE
      else if func3 = 6 then Return BrOp_BLTU
      else if func3 = 7 then Return BrOp_BGEU
      else Abort)"

text \<open>The body of \<open>case Opcode::SYS\<close>.\<close>

definition decode_sys :: "u32 \<Rightarrow> u32 \<Rightarrow> ExeFlags \<Rightarrow> (AluOp \<times> BrOp \<times> ExeFlags) outcome" where
  "decode_sys func3 imm exe_flags =
     (if func3 = 0 then
        (if imm = 0x000 \<or> imm = 0x001 then
           Return (AluOp_ADD, BrOp_NONE, exe_flags\<lparr>is_exit := True\<rparr>)
         else if imm = 0x002 \<or> imm = 0x102 \<or> imm = 0x302 then
           Return (AluOp_ADD, BrOp_NONE, exe_flags)
         else Abort)
      else
        (let exe_flags = exe_flags\<lparr>is_csr := True, alu_s2_csr := True\<rparr> in
         if func3 = 1 then Return (AluOp_ADD, BrOp_NONE, exe_flags)
         else if func3 = 2 then Return (AluOp_OR, BrOp_NONE, exe_flags)
         else if func3 = 3 then
           Return (AluOp_AND, BrOp_NONE, exe_flags\<lparr>alu_s1_inv := True\<rparr>)
         else if func3 = 5 then
           Return (AluOp_ADD, BrOp_NONE, exe_flags\<lparr>alu_s1_rs1 := True\<rparr>)
         else if func3 = 6 then
           Return (AluOp_OR, BrOp_NONE, exe_flags\<lparr>alu_s1_rs1 := True\<rparr>)
         else if func3 = 7 then
           Return (AluOp_AND, BrOp_NONE, exe_flags\<lparr>alu_s1_inv := True, alu_s1_rs1 := True\<rparr>)
         else Abort))"

text \<open>
  The second switch of \<open>Core::decode\<close> (instruction opcode decoding), from
  \<open>alu_op = NONE\<close>, \<open>br_op = NONE\<close> and the flags of the first switch.
\<close>

definition decode_op ::
  "Opcode \<Rightarrow> u32 \<Rightarrow> u32 \<Rightarrow> u32 \<Rightarrow> ExeFlags \<Rightarrow> (AluOp \<times> BrOp \<times> ExeFlags) outcome" where
  "decode_op opcode func3 func7 imm exe_flags =
     (case opcode of
        Opcode_LUI \<Rightarrow> Return (AluOp_ADD, BrOp_NONE, exe_flags)
      | Opcode_AUIPC \<Rightarrow> Return (AluOp_ADD, BrOp_NONE, exe_flags\<lparr>alu_s1_PC := True\<rparr>)
      | Opcode_R \<Rightarrow>
          (case decode_alu opcode func3 func7 of
             Abort \<Rightarrow> Abort
           | Return alu_op \<Rightarrow> Return (alu_op, BrOp_NONE, exe_flags))
      | Opcode_I \<Rightarrow>
          (case decode_alu opcode func3 func7 of
             Abort \<Rightarrow> Abort
           | Return alu_op \<Rightarrow> Return (alu_op, BrOp_NONE, exe_flags))
      | Opcode_B \<Rightarrow>
          (case decode_br func3 of
             Abort \<Rightarrow> Abort
           | Return br_op \<Rightarrow> Return (AluOp_ADD, br_op, exe_flags\<lparr>alu_s1_PC := True\<rparr>))
      | Opcode_JAL \<Rightarrow> Return (AluOp_ADD, BrOp_JAL, exe_flags\<lparr>alu_s1_PC := True\<rparr>)
      | Opcode_JALR \<Rightarrow> Return (AluOp_ADD, BrOp_JALR, exe_flags)
      | Opcode_L \<Rightarrow> Return (AluOp_ADD, BrOp_NONE, exe_flags\<lparr>is_load := True\<rparr>)
      | Opcode_S \<Rightarrow> Return (AluOp_ADD, BrOp_NONE, exe_flags\<lparr>is_store := True\<rparr>)
      | Opcode_SYS \<Rightarrow> decode_sys func3 imm exe_flags
      | Opcode_FENCE \<Rightarrow> Return (AluOp_NONE, BrOp_NONE, exe_flags))"

text \<open>Functional unit type decoding.\<close>

definition decode_fu :: "ExeFlags \<Rightarrow> BrOp \<Rightarrow> FUType" where
  "decode_fu exe_flags br_op =
     (if is_load exe_flags \<or> is_store exe_flags then FUType_LSU
      else if is_csr exe_flags then FUType_SFU
      else if br_op \<noteq> BrOp_NONE then FUType_BRU
      else FUType_ALU)"

text \<open>\<open>Core::decode\<close>.\<close>

definition decode :: "u32 \<Rightarrow> u32 \<Rightarrow> u64 \<Rightarrow> Instr option outcome" where
  "decode instr_code PC uuid =
     (let func3 = drop_bit shift_func3 instr_code AND mask_func3;
          func7 = drop_bit shift_func7 instr_code AND mask_func7;
          rd = drop_bit shift_rd instr_code AND mask_reg;
          rs1 = drop_bit shift_rs1 instr_code AND mask_reg;
          rs2 = drop_bit shift_rs2 instr_code AND mask_reg
      in case sc_instTable_find (drop_bit shift_opcode instr_code AND mask_opcode) of
           None \<Rightarrow> Return None
         | Some opcode \<Rightarrow>
             (case decode_type opcode instr_code func3 func7 rd rs2 of
                Abort \<Rightarrow> Abort
              | Return (flags1, imm) \<Rightarrow>
                  (let flags2 = (if use_rd flags1 \<and> rd = 0
                                 then flags1\<lparr>use_rd := False\<rparr> else flags1)
                   in case decode_op opcode func3 func7 imm flags2 of
                        Abort \<Rightarrow> Abort
                      | Return (alu_op, br_op, exe_flags) \<Rightarrow>
                          Return (Some
                            \<lparr>getId = uuid, getPC = PC, getOpcode = opcode, getRd = rd,
                             getRs1 = rs1, getRs2 = rs2, getImm = imm, getFunc3 = func3,
                             getFunc7 = func7, getAluOp = alu_op, getBrOp = br_op,
                             getExeFlags = exe_flags,
                             getFUType = decode_fu exe_flags br_op\<rparr>))))"

section \<open>The spec's notation\<close>

text \<open>\<open>instr[hi:lo]\<close>, the bits \<open>lo\<close> to \<open>hi\<close> of an instruction word.\<close>

definition instr_bits :: "u32 \<Rightarrow> nat \<Rightarrow> nat \<Rightarrow> u32" where
  "instr_bits w hi lo = take_bit (hi - lo + 1) (drop_bit lo w)"

text \<open>
  The B-type immediate before sign extension, in the spec's words:
  \<open>(instr[7]<<11) | (instr[11:8]<<1) | (instr[30:25]<<5) | (instr[31]<<12)\<close>.
\<close>

definition B_imm_spec :: "u32 \<Rightarrow> u32" where
  "B_imm_spec c =
     push_bit 11 (instr_bits c 7 7) OR push_bit 1 (instr_bits c 11 8)
       OR push_bit 5 (instr_bits c 30 25) OR push_bit 12 (instr_bits c 31 31)"

section \<open>The out-of-order engine (ooo.cpp)\<close>

text \<open>
  \<open>std::vector::at\<close> throws \<open>std::out_of_range\<close>; a failed \<open>assert\<close> ends the
  process. Both are values of the model.
\<close>

datatype error = out_of_range | assertion_failed

subsection \<open>Register alias table\<close>

text \<open>
  Modelled from the spec: the RAT class is declared in a header that is not among the
  sources. Per architectural register the entry is either empty or the ROB index of the
  most recent in-flight producer; the operations are \<open>exists\<close>, \<open>get\<close>, \<open>set\<close> and
  \<open>clear\<close>. \<open>get\<close> on an empty entry yields the source's sentinel for no producer, -1.
\<close>

type_synonym RAT = "u32 \<rightharpoonup> nat"

definition RAT_exists :: "RAT \<Rightarrow> u32 \<Rightarrow> bool" where
  "RAT_exists rat r = (rat r \<noteq> None)"

definition RAT_get :: "RAT \<Rightarrow> u32 \<Rightarrow> int" where
  "RAT_get rat r = (case rat r of None \<Rightarrow> - 1 | Some rob_index \<Rightarrow> int rob_index)"

definition RAT_set :: "RAT \<Rightarrow> u32 \<Rightarrow> nat \<Rightarrow> RAT" where
  "RAT_set rat r rob_index = rat(r \<mapsto> rob_index)"

definition RAT_clear :: "RAT \<Rightarrow> u32 \<Rightarrow> RAT" where
  "RAT_clear rat r = rat(r := None)"

subsection \<open>Common data bus\<close>

text \<open>
  Modelled from the spec: the CDB class is not among the sources. It is a single-slot
  mailbox holding \<open>{result, rob_index, rs_index}\<close>, empty or full; \<open>push\<close> fails if it
  is already full, \<open>pop\<close> clears it, \<open>data\<close> peeks.
\<close>

record CDB_data =
  cdb_result :: u32
  cdb_rob_index :: nat
  cdb_rs_index :: nat

type_synonym CDB = "CDB_data option"

definition CDB_empty :: "CDB \<Rightarrow> bool" where
  "CDB_empty cdb = (cdb = None)"

definition CDB_push :: "CDB \<Rightarrow> u32 \<Rightarrow> nat \<Rightarrow> nat \<Rightarrow> CDB" where
  "CDB_push cdb res rob_idx rs_idx =
     (case cdb of
        None \<Rightarrow> Some \<lparr>cdb_result = res, cdb_rob_index = rob_idx, cdb_rs_index = rs_idx\<rparr>
      | Some d \<Rightarrow> Some d)"

definition CDB_pop :: "CDB \<Rightarrow> CDB" where
  "CDB_pop cdb = None"

subsection \<open>Reorder buffer\<close>

text \<open>
  Modelled from the spec: the ROB class is not among the sources. It is a circular FIFO of
  fixed capacity whose entries are \<open>{instr, result, ready}\<close>. \<open>allocate\<close> fills the slot
  at the tail and returns its absolute index, \<open>update\<close> stores the result and sets
  \<open>ready\<close> for the entry at the broadcast's \<open>rob_index\<close>, \<open>pop\<close> retires the head.
\<close>

record ROB_entry =
  rob_instr :: Instr
  result :: u32
  ready :: bool

record ROB =
  rob_store :: "ROB_entry list"
  rob_head :: nat
  rob_tail :: nat
  rob_count :: nat

definition ROB_full :: "ROB \<Rightarrow> bool" where
  "ROB_full rob = (rob_count rob = length (rob_store rob))"

definition ROB_empty :: "ROB \<Rightarrow> bool" where
  "ROB_empty rob = (rob_count rob = 0)"

definition ROB_allocate :: "ROB \<Rightarrow> Instr \<Rightarrow> nat \<times> ROB" where
  "ROB_allocate rob instr =
     (rob_tail rob,
      rob\<lparr>rob_store := (rob_store rob)
              [rob_tail rob := \<lparr>rob_instr = instr, result = 0, ready = False\<rparr>],
          rob_tail := (rob_tail rob + 1) mod length (rob_store rob),
          rob_count := rob_count rob + 1\<rparr>)"

definition ROB_head_index :: "ROB \<Rightarrow> nat" where
  "ROB_head_index rob = rob_head rob"

definition ROB_get_entry :: "ROB \<Rightarrow> nat \<Rightarrow> ROB_entry" where
  "ROB_get_entry rob i = rob_store rob ! i"

definition ROB_update :: "ROB \<Rightarrow> CDB_data \<Rightarrow> ROB" where
  "ROB_update rob d =
     rob\<lparr>rob_store := (rob_store rob)
            [cdb_rob_index d :=
               (rob_store rob ! cdb_rob_index d)\<lparr>result := cdb_result d, ready := True\<rparr>]\<rparr>"

definition ROB_pop :: "ROB \<Rightarrow> ROB" where
  "ROB_pop rob =
     rob\<lparr>rob_head := (rob_head rob + 1) mod length (rob_store rob),
         rob_count := rob_count rob - 1\<rparr>"

subsection \<open>Reservation stations\<close>

text \<open>
  Modelled from the spec: the RS class is not among the sources. It is a fixed pool of
  slots \<open>{valid, running, instr, rob_index, rs1_tag, rs2_tag, rs1_data, rs2_data}\<close>, a
  tag of -1 meaning that the operand is ready. \<open>issue\<close> selects a free slot (here the
  first), marks it valid and not running; \<open>release\<close> clears valid and running;
  \<open>update_operands\<close> captures a broadcast for each operand whose tag matches the
  broadcast's \<open>rs_index\<close>. The spec does not say what \<open>issue\<close> does on a full pool, and
  \<open>Core::issue\<close> does not call it then; the model leaves the pool as it is.
\<close>

record RS_entry =
  entry_valid :: bool
  entry_running :: bool
  entry_instr :: Instr
  entry_rob_index :: nat
  entry_rs1_tag :: int
  entry_rs2_tag :: int
  entry_rs1_data :: u32
  entry_rs2_data :: u32

type_synonym RS = "RS_entry list"

fun free_slot :: "RS \<Rightarrow> nat option" where
  "free_slot [] = None"
| "free_slot (e # es) = (if \<not> entry_valid e then Some 0 else map_option Suc (free_slot es))"

definition RS_full :: "RS \<Rightarrow> bool" where
  "RS_full rs = (free_slot rs = None)"

definition RS_size :: "RS \<Rightarrow> nat" where
  "RS_size rs = length rs"

definition RS_get_entry :: "RS \<Rightarrow> nat \<Rightarrow> RS_entry" where
  "RS_get_entry rs i = rs ! i"

definition operands_ready :: "RS_entry \<Rightarrow> bool" where
  "operands_ready e = (entry_rs1_tag e = - 1 \<and> entry_rs2_tag e = - 1)"

definition RS_issue ::
  "RS \<Rightarrow> nat \<Rightarrow> int \<Rightarrow> int \<Rightarrow> u32 \<Rightarrow> u32 \<Rightarrow> Instr \<Rightarrow> nat \<times> RS" where
  "RS_issue rs rob_idx tag1 tag2 data1 data2 instr =
     (case free_slot rs of
        None \<Rightarrow> (length rs, rs)
      | Some i \<Rightarrow>
          (i, rs[i := \<lparr>entry_valid = True, entry_running = False, entry_instr = instr,
                       entry_rob_index = rob_idx, entry_rs1_tag = tag1,
                       entry_rs2_tag = tag2, entry_rs1_data = data1,
                       entry_rs2_data = data2\<rparr>]))"

definition RS_release :: "RS \<Rightarrow> nat \<Rightarrow> RS" where
  "RS_release rs i = rs[i := (rs ! i)\<lparr>entry_valid := False, entry_running := False\<rparr>]"

definition update_operands :: "RS_entry \<Rightarrow> CDB_data \<Rightarrow> RS_entry" where
  "update_operands e d =
     (let e1 = (if entry_rs1_tag e = int (cdb_rs_index d)
                then e\<lparr>entry_rs1_data := cdb_result d, entry_rs1_tag := - 1\<rparr> else e)
      in if entry_rs2_tag e1 = int (cdb_rs_index d)
         then e1\<lparr>entry_rs2_data := cdb_result d, entry_rs2_tag := - 1\<rparr> else e1)"

subsection \<open>Functional units\<close>

text \<open>
  Modelled from the spec: the functional-unit classes are not among the sources, and the
  spec gives only their contract. A unit shows whether a result is available
  (\<open>done\<close>) and which (\<open>get_output\<close>); \<open>clear\<close> makes it idle. What \<open>issue\<close> and
  \<open>execute\<close> do to a unit is the datapath, out of scope: both are parameters of
  \<open>Core::execute\<close> below. \<open>FUs_\<close> is indexed by \<open>(int)fu_type\<close>, the enumerators
  numbered in the order the spec lists them.
\<close>

record FU =
  fu_done :: bool
  fu_output :: CDB_data
  fu_pending :: "(Instr \<times> nat \<times> nat \<times> u32 \<times> u32) option"

definition FU_clear :: "FU \<Rightarrow> FU" where
  "FU_clear fu = fu\<lparr>fu_done := False, fu_pending := None\<rparr>"

fun FUType_int :: "FUType \<Rightarrow> nat" where
  "FUType_int FUType_ALU = 0"
| "FUType_int FUType_BRU = 1"
| "FUType_int FUType_LSU = 2"
| "FUType_int FUType_SFU = 3"
| "FUType_int FUType_NONE = 4"

type_synonym FU_issue = "FU \<Rightarrow> Instr \<Rightarrow> nat \<Rightarrow> nat \<Rightarrow> u32 \<Rightarrow> u32 \<Rightarrow> FU"

subsection \<open>The core\<close>

text \<open>
  The members of \<open>Core\<close> that the four stages touch; a member \<open>name_\<close> of the
  source is the field \<open>m_name\<close>. The issue queue delivers decoded
  instructions in fetch order; \<open>RST_\<close> is the mapping that \<open>Core::issue\<close> writes with
  \<open>RST_[tag] = rs_index\<close>, keyed by the \<open>int\<close> tag.
\<close>

record Core =
  m_issue_queue :: "Instr list"
  m_RAT :: RAT
  m_ROB :: ROB
  m_RS :: RS
  m_RST :: "int \<rightharpoonup> nat"
  m_CDB :: CDB
  m_FUs :: "FU list"
  m_reg_file :: "u32 list"
  m_perf_stats_instrs :: nat
  m_fetched_instrs :: nat
  m_exited :: bool

text \<open>
  The operand read of \<open>Core::issue\<close>, written twice in the source (lines 58-72 for rs1,
  lines 81-95 for rs2): the data and the reservation station id, from their initial
  values 0 and -1.
\<close>

definition read_operand :: "Core \<Rightarrow> bool \<Rightarrow> u32 \<Rightarrow> error + (u32 \<times> int)" where
  "read_operand s used r =
     (if used then
        (if RAT_exists (m_RAT s) r then
           (let rob_id = RAT_get (m_RAT s) r;
                rob_entry = ROB_get_entry (m_ROB s) (nat rob_id)
            in if ready rob_entry then Inr (result rob_entry, - 1) else Inr (0, rob_id))
         else if unat r < length (m_reg_file s) then Inr (m_reg_file s ! unat r, - 1)
         else Inl out_of_range)
      else Inr (0, - 1))"

text \<open>\<open>Core::issue\<close>.\<close>

definition issue :: "Core \<Rightarrow> error + Core" where
  "issue s =
     (if m_issue_queue s = [] then Inr s
      else
        (let instr = hd (m_issue_queue s);
             exe_flags = getExeFlags instr
         in if RS_full (m_RS s) then Inr s
            else if ROB_full (m_ROB s) then Inr s
            else
              (case read_operand s (use_rs1 exe_flags) (getRs1 instr) of
                 Inl e \<Rightarrow> Inl e
               | Inr (rs1_data, rs1_rsid) \<Rightarrow>
                   (case read_operand s (use_rs2 exe_flags) (getRs2 instr) of
                      Inl e \<Rightarrow> Inl e
                    | Inr (rs2_data, rs2_rsid) \<Rightarrow>
                        (let (rob_index, rob') = ROB_allocate (m_ROB s) instr;
                             rat' = (if use_rd exe_flags
                                     then RAT_set (m_RAT s) (getRd instr) rob_index
                                     else m_RAT s);
                             (rs_index, rs') =
                               RS_issue (m_RS s) rob_index rs1_rsid rs2_rsid rs1_data rs2_data
                                 instr;
                             rst' = ((m_RST s)(rs1_rsid \<mapsto> rs_index))(rs2_rsid \<mapsto> rs_index)
                         in Inr (s\<lparr>m_issue_queue := tl (m_issue_queue s), m_RAT := rat',
                                    m_ROB := rob', m_RS := rs', m_RST := rst'\<rparr>))))))"

text \<open>
  The second loop of \<open>Core::execute\<close>: every unit that reports \<open>done()\<close> pushes its
  output on the CDB and is cleared. The loop has no \<open>break\<close>.
\<close>

fun publish :: "FU list \<Rightarrow> CDB \<Rightarrow> FU list \<times> CDB" where
  "publish [] cdb = ([], cdb)"
| "publish (fu # fus) cdb =
     (if fu_done fu then
        (let output = fu_output fu;
             cdb1 = CDB_push cdb (cdb_result output) (cdb_rob_index output)
                      (cdb_rs_index output);
             (fus', cdb2) = publish fus cdb1
         in (FU_clear fu # fus', cdb2))
      else
        (let (fus', cdb2) = publish fus cdb in (fu # fus', cdb2)))"

text \<open>
  The third loop of \<open>Core::execute\<close>, over the reservation station indices that are
  left. \<open>locked\<close> is \<open>RS_.locked\<close>, whose policy the source does not show.
\<close>

fun dispatch ::
  "FU_issue \<Rightarrow> (RS \<Rightarrow> nat \<Rightarrow> bool) \<Rightarrow> nat list \<Rightarrow> RS \<Rightarrow> FU list \<Rightarrow> error + (RS \<times> FU list)"
  where
  "dispatch fu_issue locked [] rs fus = Inr (rs, fus)"
| "dispatch fu_issue locked (rs_index # rest) rs fus =
     (let entry = RS_get_entry rs rs_index
      in if entry_valid entry \<and> \<not> entry_running entry \<and> operands_ready entry
            \<and> \<not> locked rs rs_index
         then
           (let instr = entry_instr entry;
                k = FUType_int (getFUType instr)
            in if k < length fus
               then dispatch fu_issue locked rest
                      (rs[rs_index := entry\<lparr>entry_running := True\<rparr>])
                      (fus[k := fu_issue (fus ! k) instr (entry_rob_index entry) rs_index
                                  (entry_rs1_data entry) (entry_rs2_data entry)])
               else Inl out_of_range)
         else dispatch fu_issue locked rest rs fus)"

text \<open>\<open>Core::execute\<close>: tick every unit, publish, dispatch.\<close>

definition execute ::
  "(FU \<Rightarrow> FU) \<Rightarrow> FU_issue \<Rightarrow> (RS \<Rightarrow> nat \<Rightarrow> bool) \<Rightarrow> Core \<Rightarrow> error + Core" where
  "execute fu_execute fu_issue locked s =
     (let (fus1, cdb1) = publish (map fu_execute (m_FUs s)) (m_CDB s)
      in case dispatch fu_issue locked [0 ..< RS_size (m_RS s)] (m_RS s) fus1 of
           Inl e \<Rightarrow> Inl e
         | Inr (rs', fus2) \<Rightarrow> Inr (s\<lparr>m_FUs := fus2, m_CDB := cdb1, m_RS := rs'\<rparr>))"

text \<open>\<open>Core::writeback\<close>.\<close>

definition writeback :: "Core \<Rightarrow> Core" where
  "writeback s =
     (case m_CDB s of
        None \<Rightarrow> s
      | Some cdb_data \<Rightarrow>
          s\<lparr>m_RS := RS_release (map (\<lambda>e. update_operands e cdb_data) (m_RS s))
                     (cdb_rs_index cdb_data),
            m_ROB := ROB_update (m_ROB s) cdb_data,
            m_CDB := CDB_pop (m_CDB s)\<rparr>)"

text \<open>
  \<open>Core::commit\<close>. The register file is written through \<open>at\<close>; the assertion stands
  after the write and the pop, before the counter is incremented.
\<close>

definition commit :: "Core \<Rightarrow> error + Core" where
  "commit s =
     (if ROB_empty (m_ROB s) then Inr s
      else
        (let head_index = ROB_head_index (m_ROB s);
             rob_head = ROB_get_entry (m_ROB s) head_index
         in if ready rob_head then
              (let instr = rob_instr rob_head;
                   exe_flags = getExeFlags instr
               in if use_rd exe_flags \<and> \<not> unat (getRd instr) < length (m_reg_file s)
                  then Inl out_of_range
                  else
                    (let s1 = (if use_rd exe_flags
                               then s\<lparr>m_reg_file := (m_reg_file s)
                                         [unat (getRd instr) := result rob_head],
                                       m_RAT := (if RAT_get (m_RAT s) (getRd instr)
                                                   = int head_index
                                                then RAT_clear (m_RAT s) (getRd instr)
                                                else m_RAT s)\<rparr>
                               else s);
                         s2 = s1\<lparr>m_ROB := ROB_pop (m_ROB s1)\<rparr>
                     in if m_perf_stats_instrs s2 \<le> m_fetched_instrs s2
                        then Inr (s2\<lparr>m_perf_stats_instrs := m_perf_stats_instrs s2 + 1,
                                     m_exited := (if is_exit exe_flags then True
                                                 else m_exited s2)\<rparr>)
                        else Inl assertion_failed))
            else Inr s))"

subsection \<open>Runs of the core\<close>

text \<open>
  Modelled from the spec: the front end is not among the sources. It delivers what
  \<open>Core::decode\<close> returns for a fetched word to the issue queue and counts the fetch;
  a decode failure delivers nothing.
\<close>

definition front_end :: "Core \<Rightarrow> u32 \<Rightarrow> u32 \<Rightarrow> u64 \<Rightarrow> Core option" where
  "front_end s instr_code PC uuid =
     (case decode instr_code PC uuid of
        Return (Some instr) \<Rightarrow>
          Some (s\<lparr>m_issue_queue := m_issue_queue s @ [instr],
                  m_fetched_instrs := m_fetched_instrs s + 1\<rparr>)
      | _ \<Rightarrow> None)"

text \<open>
  Modelled from the spec: the driver that calls the stages is not among the sources. The
  states a program can reach: the core starts with an empty ROB, an empty issue queue and a
  register file whose element 0 is zero; then the four stages run, in any order and any
  number of times, with any behaviour of the functional units, and the front end appends
  to the issue queue what \<open>Core::decode\<close> returns for a fetched word. The driver's cycle
  (commit, writeback, execute, issue) is one such order.
\<close>

definition initial :: "Core \<Rightarrow> bool" where
  "initial s =
     (m_issue_queue s = [] \<and> rob_count (m_ROB s) = 0 \<and> rob_head (m_ROB s) = rob_tail (m_ROB s)
      \<and> rob_head (m_ROB s) < length (rob_store (m_ROB s)) \<and> m_reg_file s ! 0 = 0)"

inductive reachable :: "Core \<Rightarrow> bool" where
  start: "initial s \<Longrightarrow> reachable s"
| fetch: "reachable s \<Longrightarrow> front_end s instr_code PC uuid = Some s' \<Longrightarrow> reachable s'"
| issue: "reachable s \<Longrightarrow> issue s = Inr s' \<Longrightarrow> reachable s'"
| execute: "reachable s \<Longrightarrow> execute fu_execute fu_issue locked s = Inr s' \<Longrightarrow> reachable s'"
| writeback: "reachable s \<Longrightarrow> reachable (writeback s)"
| commit: "reachable s \<Longrightarrow> commit s = Inr s' \<Longrightarrow> reachable s'"

subsection \<open>The spec's reading of an operand\<close>

text \<open>
  The operand source rule of the issue stage, in the spec's words: if the RAT maps the
  register to a ROB index whose entry is ready, the data is that entry's result and the
  tag is -1; if the entry is not ready, the tag is that ROB index; if the RAT has no
  mapping, the data is the register-file value and the tag is -1.
\<close>

definition operand_source_spec :: "Core \<Rightarrow> u32 \<Rightarrow> u32 \<Rightarrow> int \<Rightarrow> bool" where
  "operand_source_spec s r d t =
     (case m_RAT s r of
        Some i \<Rightarrow>
          if ready (ROB_get_entry (m_ROB s) i)
          then d = result (ROB_get_entry (m_ROB s) i) \<and> t = - 1
          else t = int i
      | None \<Rightarrow> d = m_reg_file s ! unat r \<and> t = - 1)"

subsection \<open>Invariants\<close>

text \<open>A descriptor that writes a register does not write x0.\<close>

definition rd0_ok :: "Instr \<Rightarrow> bool" where
  "rd0_ok i = (\<not> (use_rd (getExeFlags i) \<and> getRd i = 0))"

text \<open>
  The ROB is a well-formed circular buffer whose occupied slots, from the head on, hold
  descriptors that do not write x0.
\<close>

definition ROB_wf :: "ROB \<Rightarrow> bool" where
  "ROB_wf rob =
     (rob_head rob < length (rob_store rob) \<and> rob_count rob \<le> length (rob_store rob)
      \<and> rob_tail rob = (rob_head rob + rob_count rob) mod length (rob_store rob)
      \<and> (\<forall>k < rob_count rob.
            rd0_ok (rob_instr (rob_store rob
                      ! ((rob_head rob + k) mod length (rob_store rob))))))"

definition core_inv :: "Core \<Rightarrow> bool" where
  "core_inv s =
     (m_reg_file s ! 0 = 0 \<and> list_all rd0_ok (m_issue_queue s) \<and> ROB_wf (m_ROB s))"

subsection \<open>Scenarios\<close>

text \<open>
  The core after construction, with \<open>n_rs\<close> reservation stations, \<open>n_rob\<close> ROB
  entries, four idle units and 32 registers, all zero. \<open>null_Instr\<close> stands for the null
  pointer of a slot that was never allocated; no stage reads it.
\<close>

definition null_Instr :: Instr where
  "null_Instr =
     \<lparr>getId = 0, getPC = 0, getOpcode = Opcode_FENCE, getRd = 0, getRs1 = 0, getRs2 = 0,
      getImm = 0, getFunc3 = 0, getFunc7 = 0, getAluOp = AluOp_NONE, getBrOp = BrOp_NONE,
      getExeFlags = no_flags, getFUType = FUType_NONE\<rparr>"

definition idle_FU :: FU where
  "idle_FU =
     \<lparr>fu_done = False,
      fu_output = \<lparr>cdb_result = 0, cdb_rob_index = 0, cdb_rs_index = 0\<rparr>,
      fu_pending = None\<rparr>"

definition reset_core :: "nat \<Rightarrow> nat \<Rightarrow> Core" where
  "reset_core n_rs n_rob =
     \<lparr>m_issue_queue = [],
      m_RAT = Map.empty,
      m_ROB = \<lparr>rob_store = replicate n_rob \<lparr>rob_instr = null_Instr, result = 0, ready = False\<rparr>,
               rob_head = 0, rob_tail = 0, rob_count = 0\<rparr>,
      m_RS = replicate n_rs
               \<lparr>entry_valid = False, entry_running = False, entry_instr = null_Instr,
                entry_rob_index = 0, entry_rs1_tag = - 1, entry_rs2_tag = - 1,
                entry_rs1_data = 0, entry_rs2_data = 0\<rparr>,
      m_RST = Map.empty,
      m_CDB = None,
      m_FUs = replicate 4 idle_FU,
      m_reg_file = replicate 32 0,
      m_perf_stats_instrs = 0,
      m_fetched_instrs = 0,
      m_exited = False\<rparr>"

text \<open>
  A stand-in datapath for the scenarios: after a tick every unit reports the result 5 for
  ROB entry 0 and reservation station 0; issuing to a unit leaves it as it is; no
  reservation station is locked.
\<close>

definition example_fu_execute :: "FU \<Rightarrow> FU" where
  "example_fu_execute fu =
     fu\<lparr>fu_done := True,
        fu_output := \<lparr>cdb_result = 5, cdb_rob_index = 0, cdb_rs_index = 0\<rparr>\<rparr>"

definition example_fu_issue :: FU_issue where
  "example_fu_issue fu instr rob_idx rs_idx data1 data2 = fu"

definition example_locked :: "RS \<Rightarrow> nat \<Rightarrow> bool" where
  "example_locked rs i = False"

text \<open>\<open>ADDI x1, x0, 5\<close> fetched into a fresh core, issued, executed and written back.\<close>

definition ex_queued :: Core where
  "ex_queued = the (front_end (reset_core 2 4) 0x00500093 0 0)"

definition ex_issued :: Core where
  "ex_issued = projr (issue ex_queued)"

definition ex_ready :: Core where
  "ex_ready =
     writeback (projr (execute example_fu_execute example_fu_issue example_locked ex_issued))"

text \<open>\<open>ADDI x2, x1, 2\<close> fetched while x1 is pending, and after x1's result is in the ROB.\<close>

definition ex_pending_queued :: Core where
  "ex_pending_queued = the (front_end ex_issued 0x00208113 4 1)"

definition ex_ready_queued :: Core where
  "ex_ready_queued = the (front_end ex_ready 0x00208113 4 1)"

text \<open>
  The spec's scenario 7: a second writer of x1, \<open>ADDI x1, x0, 2\<close>, is issued before the
  first commits; then the first writer's result is written back.
\<close>

definition ex_two_writers :: Core where
  "ex_two_writers = projr (issue (the (front_end ex_issued 0x00200093 4 1)))"

definition ex_two_writers_ready :: Core where
  "ex_two_writers_ready =
     writeback
       (projr (execute example_fu_execute example_fu_issue example_locked ex_two_writers))"

text \<open>A core whose ALU and BRU both have a result: 5 for ROB entry 0, 7 for ROB entry 1.\<close>

definition ex_two_done :: Core where
  "ex_two_done =
     (reset_core 2 4)
       \<lparr>m_FUs :=
          [idle_FU\<lparr>fu_done := True,
                   fu_output := \<lparr>cdb_result = 5, cdb_rob_index = 0, cdb_rs_index = 0\<rparr>\<rparr>,
           idle_FU\<lparr>fu_done := True,
                   fu_output := \<lparr>cdb_result = 7, cdb_rob_index = 1, cdb_rs_index = 1\<rparr>\<rparr>,
           idle_FU, idle_FU]\<rparr>"

text \<open>\<open>ADDI x0, x0, 5\<close> taken through fetch, issue, execute, writeback and commit.\<close>

definition ex_x0_queued :: Core where
  "ex_x0_queued = the (front_end (reset_core 2 4) 0x00500013 0 0)"

definition ex_x0_issued :: Core where
  "ex_x0_issued = projr (issue ex_x0_queued)"

definition ex_x0_executed :: Core where
  "ex_x0_executed =
     projr (execute example_fu_execute example_fu_issue example_locked ex_x0_issued)"

definition ex_x0_ready :: Core where
  "ex_x0_ready = writeback ex_x0_executed"

definition ex_x0_committed :: Core where
  "ex_x0_committed = projr (commit ex_x0_ready)"

text \<open>
  A third instruction fetched when both reservation stations are taken, and a second one
  fetched into a core whose ROB has a single entry, which the first instruction holds.
\<close>

definition ex_rs_full :: Core where
  "ex_rs_full = the (front_end ex_two_writers 0x00208113 8 2)"

definition ex_rob_full :: Core where
  "ex_rob_full =
     the (front_end (projr (issue (the (front_end (reset_core 2 1) 0x00500093 0 0))))
            0x00208113 4 1)"

section \<open>Bit fields of the instruction word\<close>

lemmas Constants_defs =
  width_reg_def width_i_imm_def width_j_imm_def shift_opcode_def shift_rd_def
  shift_func3_def shift_rs1_def shift_rs2_def shift_func7_def mask_opcode_def mask_reg_def
  mask_func3_def mask_func7_def

lemma mask_numerals:
  "(0x1f::u32) = mask 5" "(0x7f::u32) = mask 7" "(0x3f::u32) = mask 6" "(1::u32) = mask 1"
  "(7::u32) = mask 3"
  by (simp_all add: mask_eq_exp_minus_1)

lemma field_opcode: "drop_bit shift_opcode c AND mask_opcode = instr_bits c 6 0"
  by (simp add: Constants_defs instr_bits_def mask_numerals take_bit_eq_mask)

lemma field_rd: "drop_bit shift_rd c AND mask_reg = instr_bits c 11 7"
  by (simp add: Constants_defs instr_bits_def mask_numerals take_bit_eq_mask)

lemma field_func3: "drop_bit shift_func3 c AND mask_func3 = instr_bits c 14 12"
  by (simp add: Constants_defs instr_bits_def mask_numerals take_bit_eq_mask)

lemma field_rs1: "drop_bit shift_rs1 c AND mask_reg = instr_bits c 19 15"
  by (simp add: Constants_defs instr_bits_def mask_numerals take_bit_eq_mask)

lemma field_rs2: "drop_bit shift_rs2 c AND mask_reg = instr_bits c 24 20"
  by (simp add: Constants_defs instr_bits_def mask_numerals take_bit_eq_mask)

lemma field_func7: "drop_bit shift_func7 c AND mask_func7 = instr_bits c 31 25"
  by (simp add: Constants_defs instr_bits_def mask_numerals take_bit_eq_mask)

lemmas fields = field_opcode field_rd field_func3 field_rs1 field_rs2 field_func7

text \<open>The func3 field is one of eight values.\<close>

lemma func3_range: "instr_bits c 14 12 \<in> {0, 1, 2, 3, 4, 5, 6, 7}"
proof -
  let ?x = "instr_bits c 14 12"
  have "unat ?x < 8"
  proof -
    have "unat ?x = take_bit 3 (unat (drop_bit 12 c))"
      by (simp only: instr_bits_def unsigned_take_bit_eq) simp
    also have "\<dots> < 2 ^ 3"
      by (rule take_bit_nat_less_exp)
    finally show ?thesis by simp
  qed
  then have "unat ?x \<in> {0, 1, 2, 3, 4, 5, 6, 7}"
    by auto
  then have "(of_nat (unat ?x) :: u32) \<in> of_nat ` {0, 1, 2, 3, 4, 5, 6, 7}"
    by (rule imageI)
  then show ?thesis
    by simp
qed

text \<open>\<open>sext\<close> agrees with the library's sign extension.\<close>

lemma sext_signed_take_bit:
  assumes "0 < n"
  shows "sext w n = signed_take_bit (n - 1) w"
proof (rule bit_word_eqI)
  fix k
  assume len: "k < LENGTH(32)"
  have k: "k < n - 1 \<or> k = n - 1 \<or> n \<le> k"
    by arith
  then show "bit (sext w n) k = bit (signed_take_bit (n - 1) w) k"
    using assms len by (auto simp add: sext_def bit_simps min_def dest: bit_imp_le_length)
qed

section \<open>The shape of a decode result\<close>

lemma decode_unfold:
  "decode c pc u =
     (case sc_instTable_find (instr_bits c 6 0) of
        None \<Rightarrow> Return None
      | Some opcode \<Rightarrow>
          (case decode_type opcode c (instr_bits c 14 12) (instr_bits c 31 25)
                  (instr_bits c 11 7) (instr_bits c 24 20) of
             Abort \<Rightarrow> Abort
           | Return (flags1, imm) \<Rightarrow>
               (case decode_op opcode (instr_bits c 14 12) (instr_bits c 31 25) imm
                       (if use_rd flags1 \<and> instr_bits c 11 7 = 0
                        then flags1\<lparr>use_rd := False\<rparr> else flags1) of
                  Abort \<Rightarrow> Abort
                | Return (alu_op, br_op, exe_flags) \<Rightarrow>
                    Return (Some
                      \<lparr>getId = u, getPC = pc, getOpcode = opcode,
                       getRd = instr_bits c 11 7, getRs1 = instr_bits c 19 15,
                       getRs2 = instr_bits c 24 20, getImm = imm,
                       getFunc3 = instr_bits c 14 12, getFunc7 = instr_bits c 31 25,
                       getAluOp = alu_op, getBrOp = br_op, getExeFlags = exe_flags,
                       getFUType = decode_fu exe_flags br_op\<rparr>))))"
  unfolding decode_def Let_def fields ..

lemma decode_SomeD:
  assumes "decode c pc u = Return (Some i)"
  obtains opcode flags1 imm alu_op br_op exe_flags where
    "sc_instTable_find (instr_bits c 6 0) = Some opcode"
    "decode_type opcode c (instr_bits c 14 12) (instr_bits c 31 25)
       (instr_bits c 11 7) (instr_bits c 24 20) = Return (flags1, imm)"
    "decode_op opcode (instr_bits c 14 12) (instr_bits c 31 25) imm
       (if use_rd flags1 \<and> instr_bits c 11 7 = 0
        then flags1\<lparr>use_rd := False\<rparr> else flags1) = Return (alu_op, br_op, exe_flags)"
    "i = \<lparr>getId = u, getPC = pc, getOpcode = opcode,
          getRd = instr_bits c 11 7, getRs1 = instr_bits c 19 15,
          getRs2 = instr_bits c 24 20, getImm = imm,
          getFunc3 = instr_bits c 14 12, getFunc7 = instr_bits c 31 25,
          getAluOp = alu_op, getBrOp = br_op, getExeFlags = exe_flags,
          getFUType = decode_fu exe_flags br_op\<rparr>"
  using assms unfolding decode_unfold
  by (auto split: option.splits outcome.splits prod.splits)

lemma sc_instTable_find_value: "sc_instTable_find (Opcode_value opc) = Some opc"
  by (cases opc) (simp_all add: sc_instTable_find_def sc_instTable_keys_def)

lemma sc_instTable_find_SomeD: "sc_instTable_find b = Some opc \<Longrightarrow> Opcode_value opc = b"
  by (auto simp add: sc_instTable_find_def find_Some_iff)

section \<open>Raw bit fields of the descriptor\<close>

text \<open>
  C10. Every instruction word that \<open>decode\<close> accepts yields a descriptor that carries the
  raw fields of the word: rd is \<open>instr[11:7]\<close>, rs1 is \<open>instr[19:15]\<close>, rs2 is
  \<open>instr[24:20]\<close>, func3 is \<open>instr[14:12]\<close> and func7 is \<open>instr[31:25]\<close>, whatever the
  \<open>use_rd\<close>, \<open>use_rs1\<close> and \<open>use_rs2\<close> flags say.
\<close>

theorem decode_raw_fields:
  assumes "decode c pc u = Return (Some i)"
  shows "getRd i = instr_bits c 11 7 \<and> getRs1 i = instr_bits c 19 15
    \<and> getRs2 i = instr_bits c 24 20 \<and> getFunc3 i = instr_bits c 14 12
    \<and> getFunc7 i = instr_bits c 31 25"
  using assms by (rule decode_SomeD) simp

text \<open>\<open>SW x5, 8(x2)\<close> writes no register, and its rd field still holds \<open>instr[11:7] = 8\<close>.\<close>

lemma decode_SW:
  "decode 0x00512423 0 0 = Return (Some
    \<lparr>getId = 0, getPC = 0, getOpcode = Opcode_S, getRd = 8, getRs1 = 2, getRs2 = 5,
     getImm = 8, getFunc3 = 2, getFunc7 = 0, getAluOp = AluOp_ADD, getBrOp = BrOp_NONE,
     getExeFlags = no_flags\<lparr>use_rs1 := True, use_rs2 := True, use_imm := True,
       alu_s2_imm := True, is_store := True\<rparr>,
     getFUType = FUType_LSU\<rparr>)"
  by code_simp

theorem decode_raw_fields_witness:
  "\<exists>i. decode 0x00512423 0 0 = Return (Some i) \<and> \<not> use_rd (getExeFlags i)
     \<and> getRd i = 8 \<and> getRs1 i = 2 \<and> getRs2 i = 5 \<and> getFunc3 i = 2 \<and> getFunc7 i = 0"
proof -
  obtain i where i: "decode 0x00512423 0 0 = Return (Some i)"
    and f: "\<not> use_rd (getExeFlags i)"
    using decode_SW by (simp add: no_flags_def)
  from decode_raw_fields [OF i] i f show ?thesis
    by (auto simp add: instr_bits_def)
qed

section \<open>The B-type immediate\<close>

lemma B_bits_4_1: "drop_bit 1 (instr_bits c 11 7) = instr_bits c 11 8"
  by (simp add: instr_bits_def drop_bit_take_bit)

lemma B_bit_10_5: "instr_bits c 31 25 AND 0x3f = instr_bits c 30 25"
  by (simp add: instr_bits_def mask_numerals flip: take_bit_eq_mask)

lemma B_bit_11: "instr_bits c 11 7 AND 0x1 = instr_bits c 7 7"
  unfolding instr_bits_def mask_numerals take_bit_eq_mask [symmetric] take_bit_take_bit
  by simp

lemma B_bit_12: "drop_bit 6 (instr_bits c 31 25) = instr_bits c 31 31"
  by (simp add: instr_bits_def drop_bit_take_bit)

lemma B_imm_spec_even: "\<not> bit (B_imm_spec c) 0"
  unfolding B_imm_spec_def bit_or_iff bit_push_bit_iff by simp

lemma decode_type_B_eq:
  "decode_type Opcode_B c f3 (instr_bits c 31 25) (instr_bits c 11 7) r2 =
     Return (no_flags\<lparr>use_rs1 := True, use_rs2 := True, use_imm := True,
                      alu_s2_imm := True\<rparr>, sext (B_imm_spec c) 13)"
  unfolding decode_type_def Let_def B_bits_4_1 B_bit_10_5 B_bit_11 B_bit_12 B_imm_spec_def
  by (simp add: width_i_imm_def ac_simps)

lemma decode_br_Abort: "decode_br f3 = Abort \<longleftrightarrow> f3 \<notin> {0, 1, 4, 5, 6, 7}"
  by (simp add: decode_br_def)

lemma decode_B_cases:
  assumes B: "instr_bits c 6 0 = Opcode_value Opcode_B"
  shows "decode c pc u =
    (case decode_br (instr_bits c 14 12) of
       Abort \<Rightarrow> Abort
     | Return br_op \<Rightarrow>
         Return (Some
           \<lparr>getId = u, getPC = pc, getOpcode = Opcode_B,
            getRd = instr_bits c 11 7, getRs1 = instr_bits c 19 15,
            getRs2 = instr_bits c 24 20, getImm = sext (B_imm_spec c) 13,
            getFunc3 = instr_bits c 14 12, getFunc7 = instr_bits c 31 25,
            getAluOp = AluOp_ADD, getBrOp = br_op,
            getExeFlags = no_flags\<lparr>use_rs1 := True, use_rs2 := True, use_imm := True,
                            alu_s2_imm := True, alu_s1_PC := True\<rparr>,
            getFUType = decode_fu (no_flags\<lparr>use_rs1 := True, use_rs2 := True,
                            use_imm := True, alu_s2_imm := True, alu_s1_PC := True\<rparr>)
                          br_op\<rparr>))"
proof -
  from B have f: "sc_instTable_find (instr_bits c 6 0) = Some Opcode_B"
    using sc_instTable_find_value [of Opcode_B] by simp
  show ?thesis
    unfolding decode_unfold f
    by (simp add: decode_type_B_eq decode_op_def no_flags_def split: outcome.splits)
qed

text \<open>
  C7 (amended). For every B-type instruction word whose func3 is not 2 or 3, \<open>decode\<close>
  returns a descriptor whose immediate is the 13-bit value
  \<open>(instr[7]<<11) | (instr[11:8]<<1) | (instr[30:25]<<5) | (instr[31]<<12)\<close>,
  sign-extended from 13 bits to 32 bits (by \<open>sext\<close>, which is the library's
  \<open>signed_take_bit 12\<close>), and bit 0 of the immediate is zero. A B-type word with func3 2
  or 3 has no decoded immediate: \<open>decode\<close> ends the process with \<open>std::abort()\<close>.
\<close>

theorem decode_B_imm:
  assumes B: "instr_bits c 6 0 = Opcode_value Opcode_B"
  shows "(instr_bits c 14 12 = 2 \<or> instr_bits c 14 12 = 3 \<longrightarrow> decode c pc u = Abort)
    \<and> (instr_bits c 14 12 \<noteq> 2 \<and> instr_bits c 14 12 \<noteq> 3 \<longrightarrow>
         (\<exists>i. decode c pc u = Return (Some i) \<and> getOpcode i = Opcode_B
            \<and> getImm i = sext (B_imm_spec c) 13
            \<and> getImm i = signed_take_bit 12 (B_imm_spec c)
            \<and> \<not> bit (getImm i) 0))"
proof (intro conjI impI)
  assume "instr_bits c 14 12 = 2 \<or> instr_bits c 14 12 = 3"
  then have "decode_br (instr_bits c 14 12) = Abort"
    by (auto simp add: decode_br_def)
  then show "decode c pc u = Abort"
    by (simp add: decode_B_cases [OF B])
next
  assume n: "instr_bits c 14 12 \<noteq> 2 \<and> instr_bits c 14 12 \<noteq> 3"
  with func3_range [of c] have "decode_br (instr_bits c 14 12) \<noteq> Abort"
    by (auto simp add: decode_br_Abort)
  then obtain br_op where "decode_br (instr_bits c 14 12) = Return br_op"
    by (cases "decode_br (instr_bits c 14 12)") auto
  then obtain i where i: "decode c pc u = Return (Some i)"
    and o: "getOpcode i = Opcode_B" and imm: "getImm i = sext (B_imm_spec c) 13"
    by (simp add: decode_B_cases [OF B])
  have s: "sext (B_imm_spec c) 13 = signed_take_bit 12 (B_imm_spec c)"
    by (simp add: sext_signed_take_bit)
  have "\<not> bit (signed_take_bit 12 (B_imm_spec c)) 0"
    using B_imm_spec_even by (simp add: bit_signed_take_bit_iff)
  with i o imm s
  show "\<exists>i. decode c pc u = Return (Some i) \<and> getOpcode i = Opcode_B
            \<and> getImm i = sext (B_imm_spec c) 13
            \<and> getImm i = signed_take_bit 12 (B_imm_spec c)
            \<and> \<not> bit (getImm i) 0"
    by auto
qed

text \<open>
  The claim as stated fails: \<open>0x00003063\<close> is a B-type word (func3 = 3), and \<open>decode\<close>
  returns no descriptor for it.
\<close>

theorem decode_B_func3_counterexample:
  "instr_bits 0x00003063 6 0 = Opcode_value Opcode_B \<and> instr_bits 0x00003063 14 12 = 3
   \<and> decode 0x00003063 0 0 = Abort"
  by code_simp

text \<open>
  \<open>BEQ x0, x0, -4\<close> at PC \<open>0x100\<close>: the 13-bit value is \<open>0x1ffc\<close>, the immediate is -4.
  \<open>BEQ x0, x0, 0\<close>: the immediate is 0. \<open>0x00002063\<close> (func3 = 2) aborts.
\<close>

theorem decode_B_imm_witness:
  "instr_bits 0xfe000ee3 6 0 = Opcode_value Opcode_B \<and> instr_bits 0xfe000ee3 14 12 = 0
   \<and> B_imm_spec 0xfe000ee3 = 0x1ffc
   \<and> (\<exists>i. decode 0xfe000ee3 0x100 7 = Return (Some i) \<and> getOpcode i = Opcode_B
        \<and> getImm i = 0xfffffffc \<and> \<not> bit (getImm i) 0)
   \<and> instr_bits 0x00000063 6 0 = Opcode_value Opcode_B \<and> B_imm_spec 0x00000063 = 0
   \<and> (\<exists>i. decode 0x00000063 0 0 = Return (Some i) \<and> getImm i = 0)
   \<and> instr_bits 0x00002063 6 0 = Opcode_value Opcode_B \<and> instr_bits 0x00002063 14 12 = 2
   \<and> decode 0x00002063 0 0 = Abort"
proof -
  have a: "instr_bits 0xfe000ee3 6 0 = Opcode_value Opcode_B"
    "instr_bits 0xfe000ee3 14 12 = 0" "B_imm_spec 0xfe000ee3 = 0x1ffc"
    "sext 0x1ffc 13 = 0xfffffffc"
    by code_simp+
  have b: "instr_bits 0x00000063 6 0 = Opcode_value Opcode_B"
    "instr_bits 0x00000063 14 12 = 0" "B_imm_spec 0x00000063 = 0" "sext 0 13 = 0"
    by code_simp+
  have c: "instr_bits 0x00002063 6 0 = Opcode_value Opcode_B"
    "instr_bits 0x00002063 14 12 = 2"
    by code_simp+
  from decode_B_imm [OF a(1), of "0x100" 7] a
  have "\<exists>i. decode 0xfe000ee3 0x100 7 = Return (Some i) \<and> getOpcode i = Opcode_B
        \<and> getImm i = 0xfffffffc \<and> \<not> bit (getImm i) 0"
    by auto
  moreover from decode_B_imm [OF b(1), of 0 0] b
  have "\<exists>i. decode 0x00000063 0 0 = Return (Some i) \<and> getImm i = 0"
    by auto
  moreover from decode_B_imm [OF c(1), of 0 0] c
  have "decode 0x00002063 0 0 = Abort"
    by simp
  ultimately show ?thesis
    using a b c by simp
qed

section \<open>Selection of the ALU micro-op\<close>

text \<open>
  C4 (amended). For every decoded R-type or I-type arithmetic instruction: with func3 = 0
  the ALU micro-op is SUB exactly when the instruction is R-type and func7 is non-zero
  (any set bit of func7 selects SUB, not only bit 5), and ADD otherwise; with func3 = 5 it
  is SRA when bit 5 of func7 is set and SRL when func7 is zero.
\<close>

theorem decode_alu_select:
  assumes "decode c pc u = Return (Some i)"
    and "getOpcode i = Opcode_R \<or> getOpcode i = Opcode_I"
  shows "(getFunc3 i = 0 \<longrightarrow>
            getAluOp i = (if getOpcode i = Opcode_R \<and> getFunc7 i \<noteq> 0
                          then AluOp_SUB else AluOp_ADD))
    \<and> (getFunc3 i = 5 \<longrightarrow>
            (bit (getFunc7 i) 5 \<longrightarrow> getAluOp i = AluOp_SRA)
          \<and> (getFunc7 i = 0 \<longrightarrow> getAluOp i = AluOp_SRL))"
proof -
  from assms(1) obtain opcode imm fl alu_op br_op exe_flags where
    op: "decode_op opcode (instr_bits c 14 12) (instr_bits c 31 25) imm fl
          = Return (alu_op, br_op, exe_flags)"
    and i: "getOpcode i = opcode" "getFunc3 i = instr_bits c 14 12"
      "getFunc7 i = instr_bits c 31 25" "getAluOp i = alu_op"
    by (rule decode_SomeD) simp
  from assms(2) op i
  have alu: "decode_alu (getOpcode i) (getFunc3 i) (getFunc7 i) = Return (getAluOp i)"
    by (auto simp add: decode_op_def split: outcome.splits)
  have nz: "bit (getFunc7 i) 5 \<Longrightarrow> getFunc7 i \<noteq> 0"
    by auto
  from alu nz show ?thesis
    by (auto simp add: decode_alu_def split: if_splits)
qed

text \<open>
  The claim as stated fails: \<open>0x02000033\<close> is R-type with func3 = 0 and func7 = 1, so
  bit 5 of func7 is clear, and the micro-op is SUB; \<open>0x02005033\<close> has func3 = 5 and
  func7 = 1, and the micro-op is SRA.
\<close>

theorem decode_alu_select_counterexample:
  "map_outcome (map_option getOpcode) (decode 0x02000033 0 0) = Return (Some Opcode_R)
   \<and> map_outcome (map_option getFunc3) (decode 0x02000033 0 0) = Return (Some 0)
   \<and> map_outcome (map_option getFunc7) (decode 0x02000033 0 0) = Return (Some 1)
   \<and> map_outcome (map_option getAluOp) (decode 0x02000033 0 0) = Return (Some AluOp_SUB)
   \<and> map_outcome (map_option getOpcode) (decode 0x02005033 0 0) = Return (Some Opcode_R)
   \<and> map_outcome (map_option getFunc3) (decode 0x02005033 0 0) = Return (Some 5)
   \<and> map_outcome (map_option getFunc7) (decode 0x02005033 0 0) = Return (Some 1)
   \<and> map_outcome (map_option getAluOp) (decode 0x02005033 0 0) = Return (Some AluOp_SRA)
   \<and> \<not> bit (1 :: u32) 5"
  by code_simp

lemma decode_SUB:
  "decode 0x40000033 0 0 = Return (Some
    \<lparr>getId = 0, getPC = 0, getOpcode = Opcode_R, getRd = 0, getRs1 = 0, getRs2 = 0,
     getImm = 0, getFunc3 = 0, getFunc7 = 32, getAluOp = AluOp_SUB, getBrOp = BrOp_NONE,
     getExeFlags = no_flags\<lparr>use_rs1 := True, use_rs2 := True\<rparr>,
     getFUType = FUType_ALU\<rparr>)"
  by code_simp

lemma decode_SRAI:
  "decode 0x40005013 0 0 = Return (Some
    \<lparr>getId = 0, getPC = 0, getOpcode = Opcode_I, getRd = 0, getRs1 = 0, getRs2 = 0,
     getImm = 0, getFunc3 = 5, getFunc7 = 32, getAluOp = AluOp_SRA, getBrOp = BrOp_NONE,
     getExeFlags = no_flags\<lparr>use_rs1 := True, use_imm := True, alu_s2_imm := True\<rparr>,
     getFUType = FUType_ALU\<rparr>)"
  by code_simp

lemma decode_SRL:
  "decode 0x00005033 0 0 = Return (Some
    \<lparr>getId = 0, getPC = 0, getOpcode = Opcode_R, getRd = 0, getRs1 = 0, getRs2 = 0,
     getImm = 0, getFunc3 = 5, getFunc7 = 0, getAluOp = AluOp_SRL, getBrOp = BrOp_NONE,
     getExeFlags = no_flags\<lparr>use_rs1 := True, use_rs2 := True\<rparr>,
     getFUType = FUType_ALU\<rparr>)"
  by code_simp

theorem decode_alu_select_witness:
  "(\<exists>i. decode 0x40000033 0 0 = Return (Some i) \<and> getOpcode i = Opcode_R \<and> getFunc3 i = 0
        \<and> getFunc7 i \<noteq> 0 \<and> getAluOp i = AluOp_SUB)
   \<and> (\<exists>i. decode 0x40005013 0 0 = Return (Some i) \<and> getOpcode i = Opcode_I
        \<and> getFunc3 i = 5 \<and> bit (getFunc7 i) 5 \<and> getAluOp i = AluOp_SRA)
   \<and> (\<exists>i. decode 0x00005033 0 0 = Return (Some i) \<and> getOpcode i = Opcode_R
        \<and> getFunc3 i = 5 \<and> getFunc7 i = 0 \<and> getAluOp i = AluOp_SRL)"
proof -
  obtain i1 where i1: "decode 0x40000033 0 0 = Return (Some i1)"
    and o1: "getOpcode i1 = Opcode_R" and f1: "getFunc3 i1 = 0" "getFunc7 i1 = 32"
    using decode_SUB by simp
  obtain i2 where i2: "decode 0x40005013 0 0 = Return (Some i2)"
    and o2: "getOpcode i2 = Opcode_I" and f2: "getFunc3 i2 = 5" "getFunc7 i2 = 32"
    using decode_SRAI by simp
  obtain i3 where i3: "decode 0x00005033 0 0 = Return (Some i3)"
    and o3: "getOpcode i3 = Opcode_R" and f3: "getFunc3 i3 = 5" "getFunc7 i3 = 0"
    using decode_SRL by simp
  have b: "bit (32 :: u32) 5"
    by simp
  from decode_alu_select [OF i1] o1 f1 have "getAluOp i1 = AluOp_SUB"
    by simp
  moreover from decode_alu_select [OF i2] o2 f2 b have "getAluOp i2 = AluOp_SRA"
    by simp
  moreover from decode_alu_select [OF i3] o3 f3 have "getAluOp i3 = AluOp_SRL"
    by simp
  ultimately show ?thesis
    using i1 i2 i3 o1 o2 o3 f1 f2 f3 b by auto
qed

section \<open>Failure modes of the decoder\<close>

lemma decode_alu_total: "f3 \<in> {0, 1, 2, 3, 4, 5, 6, 7} \<Longrightarrow> decode_alu opc f3 f7 \<noteq> Abort"
  by (auto simp add: decode_alu_def)

lemma imm_SYS: "drop_bit shift_rs2 c = instr_bits c 31 20"
proof (rule bit_word_eqI)
  fix n
  assume "n < LENGTH(32)"
  show "bit (drop_bit shift_rs2 c) n = bit (instr_bits c 31 20) n"
    by (auto simp add: shift_rs2_def instr_bits_def bit_simps dest: bit_imp_le_length)
qed

lemma decode_type_total: "decode_type opc c f3 f7 rd rs2 \<noteq> Abort"
  by (cases opc) (simp_all add: decode_type_def Let_def)

lemma decode_type_SYS_imm:
  "decode_type Opcode_SYS c f3 f7 rd rs2 = Return (fl, imm) \<Longrightarrow> imm = instr_bits c 31 20"
  by (auto simp add: decode_type_def imm_SYS)

lemma decode_sys_Abort:
  "decode_sys f3 imm fl = Abort \<longleftrightarrow>
     (if f3 = 0 then imm \<notin> {0x000, 0x001, 0x002, 0x102, 0x302} else f3 \<notin> {1, 2, 3, 5, 6, 7})"
  by (simp add: decode_sys_def Let_def)

lemma decode_op_Abort:
  assumes "f3 \<in> {0, 1, 2, 3, 4, 5, 6, 7}"
  shows "decode_op opc f3 f7 imm fl = Abort \<longleftrightarrow>
     opc = Opcode_B \<and> (f3 = 2 \<or> f3 = 3)
   \<or> opc = Opcode_SYS \<and> f3 = 4
   \<or> opc = Opcode_SYS \<and> f3 = 0 \<and> imm \<notin> {0x000, 0x001, 0x002, 0x102, 0x302}"
proof (cases opc)
  case Opcode_R
  with decode_alu_total [OF assms] show ?thesis
    by (simp add: decode_op_def split: outcome.splits)
next
  case Opcode_I
  with decode_alu_total [OF assms] show ?thesis
    by (simp add: decode_op_def split: outcome.splits)
next
  case Opcode_B
  with assms show ?thesis
    by (auto simp add: decode_op_def decode_br_def split: outcome.splits)
next
  case Opcode_SYS
  with assms show ?thesis
    by (auto simp add: decode_op_def decode_sys_Abort)
qed (simp_all add: decode_op_def)

lemma sc_instTable_find_None:
  "sc_instTable_find b = None \<longleftrightarrow> b \<notin> Opcode_value ` set sc_instTable_keys"
  by (auto simp add: sc_instTable_find_def find_None_iff)

lemma Opcode_value_inj: "Opcode_value a = Opcode_value b \<Longrightarrow> a = b"
  by (cases a; cases b) simp_all

text \<open>
  C1 (amended). For every instruction word, pc and uuid, \<open>decode\<close> returns none exactly
  when the 7-bit opcode field is outside the recognized set. For an unrecognized
  combination inside a recognized opcode (B with func3 2 or 3, SYS with func3 4, SYS with
  func3 0 and \<open>instr[31:20]\<close> not one of \<open>0x000\<close>, \<open>0x001\<close>, \<open>0x002\<close>, \<open>0x102\<close>,
  \<open>0x302\<close>) it does not return: it ends the process with \<open>std::abort()\<close>. Every other
  word is decoded to a descriptor, whatever its func7.
\<close>

theorem decode_failure_modes:
  "(decode c pc u = Return None \<longleftrightarrow> instr_bits c 6 0 \<notin> Opcode_value ` set sc_instTable_keys)
   \<and> (decode c pc u = Abort \<longleftrightarrow>
         instr_bits c 6 0 = Opcode_value Opcode_B
           \<and> (instr_bits c 14 12 = 2 \<or> instr_bits c 14 12 = 3)
       \<or> instr_bits c 6 0 = Opcode_value Opcode_SYS \<and> instr_bits c 14 12 = 4
       \<or> instr_bits c 6 0 = Opcode_value Opcode_SYS \<and> instr_bits c 14 12 = 0
           \<and> instr_bits c 31 20 \<notin> {0x000, 0x001, 0x002, 0x102, 0x302})"
proof (cases "sc_instTable_find (instr_bits c 6 0)")
  case None
  then have "decode c pc u = Return None"
    by (simp add: decode_unfold)
  moreover from None have "instr_bits c 6 0 \<notin> Opcode_value ` set sc_instTable_keys"
    by (simp add: sc_instTable_find_None)
  moreover from None have "instr_bits c 6 0 \<noteq> Opcode_value Opcode_B"
    and "instr_bits c 6 0 \<noteq> Opcode_value Opcode_SYS"
    using sc_instTable_find_value [of Opcode_B] sc_instTable_find_value [of Opcode_SYS]
    by auto
  ultimately show ?thesis
    by simp
next
  case (Some opc)
  then have v: "Opcode_value opc = instr_bits c 6 0"
    by (rule sc_instTable_find_SomeD)
  then have eq: "instr_bits c 6 0 = Opcode_value x \<longleftrightarrow> opc = x" for x
    using Opcode_value_inj by metis
  obtain fl imm where t:
    "decode_type opc c (instr_bits c 14 12) (instr_bits c 31 25) (instr_bits c 11 7)
       (instr_bits c 24 20) = Return (fl, imm)"
    using decode_type_total
    by (metis outcome.exhaust surj_pair)
  have imm: "opc = Opcode_SYS \<Longrightarrow> imm = instr_bits c 31 20"
    using t by (auto dest: decode_type_SYS_imm)
  from Some have in_set: "instr_bits c 6 0 \<in> Opcode_value ` set sc_instTable_keys"
    using sc_instTable_find_None [of "instr_bits c 6 0"] by auto
  have not_none: "decode c pc u \<noteq> Return None"
    using Some t by (simp add: decode_unfold split: outcome.splits prod.splits)
  have "decode c pc u = Abort \<longleftrightarrow>
      decode_op opc (instr_bits c 14 12) (instr_bits c 31 25) imm
        (if use_rd fl \<and> instr_bits c 11 7 = 0 then fl\<lparr>use_rd := False\<rparr> else fl) = Abort"
    using Some t by (simp add: decode_unfold split: outcome.splits prod.splits)
  also have "\<dots> \<longleftrightarrow>
      opc = Opcode_B \<and> (instr_bits c 14 12 = 2 \<or> instr_bits c 14 12 = 3)
    \<or> opc = Opcode_SYS \<and> instr_bits c 14 12 = 4
    \<or> opc = Opcode_SYS \<and> instr_bits c 14 12 = 0
        \<and> imm \<notin> {0x000, 0x001, 0x002, 0x102, 0x302}"
    by (rule decode_op_Abort [OF func3_range])
  finally show ?thesis
    using in_set not_none imm unfolding eq by auto
qed

text \<open>
  The claim as stated fails: \<open>0x00002063\<close> has the B opcode and the unrecognized
  func3 = 2; \<open>decode\<close> does not return none, it aborts.
\<close>

theorem decode_unrecognized_func3_counterexample:
  "sc_instTable_find (instr_bits 0x00002063 6 0) = Some Opcode_B
   \<and> instr_bits 0x00002063 14 12 = 2
   \<and> decode 0x00002063 0 0 = Abort
   \<and> decode 0x00002063 0 0 \<noteq> Return None"
  by code_simp

theorem decode_failure_modes_witness:
  "decode 0 0 0 = Return None \<and> decode 0x00003063 0 0 = Abort
   \<and> decode 0x00004073 0 0 = Abort \<and> decode 0x00400073 0 0 = Abort
   \<and> decode 0x00100073 0 0 \<noteq> Abort \<and> decode 0x00100073 0 0 \<noteq> Return None"
  using decode_failure_modes [of 0 0 0] decode_failure_modes [of "0x00003063" 0 0]
    decode_failure_modes [of "0x00004073" 0 0] decode_failure_modes [of "0x00400073" 0 0]
    decode_failure_modes [of "0x00100073" 0 0]
  by (simp add: instr_bits_def sc_instTable_keys_def)

section \<open>The issue stage\<close>

lemma free_slot_Some:
  "free_slot rs = Some k \<Longrightarrow> k < length rs \<and> \<not> entry_valid (rs ! k)"
proof (induction rs arbitrary: k)
  case Nil
  then show ?case by simp
next
  case (Cons e es)
  then show ?case
    by (auto split: if_splits)
qed

lemma read_operand_cases:
  assumes "read_operand s used r = Inr (d, t)"
  shows "used \<Longrightarrow> m_RAT s r = Some i \<Longrightarrow> ready (ROB_get_entry (m_ROB s) i)
           \<Longrightarrow> d = result (ROB_get_entry (m_ROB s) i) \<and> t = - 1"
    and "used \<Longrightarrow> m_RAT s r = Some i \<Longrightarrow> \<not> ready (ROB_get_entry (m_ROB s) i)
           \<Longrightarrow> t = int i"
    and "used \<Longrightarrow> m_RAT s r = None \<Longrightarrow> d = m_reg_file s ! unat r \<and> t = - 1"
  using assms
  by (auto simp add: read_operand_def RAT_exists_def RAT_get_def Let_def split: if_splits)

lemma read_operand_returns:
  assumes "used \<Longrightarrow> m_RAT s r = None \<Longrightarrow> unat r < length (m_reg_file s)"
  shows "\<exists>d t. read_operand s used r = Inr (d, t)"
  using assms
  by (auto simp add: read_operand_def RAT_exists_def Let_def)

lemma issue_result:
  assumes q: "m_issue_queue s \<noteq> []" and rs: "\<not> RS_full (m_RS s)" and rob: "\<not> ROB_full (m_ROB s)"
    and o1: "read_operand s (use_rs1 (getExeFlags (hd (m_issue_queue s))))
               (getRs1 (hd (m_issue_queue s))) = Inr (d1, t1)"
    and o2: "read_operand s (use_rs2 (getExeFlags (hd (m_issue_queue s))))
               (getRs2 (hd (m_issue_queue s))) = Inr (d2, t2)"
  shows "\<exists>k. free_slot (m_RS s) = Some k \<and>
     issue s = Inr (s\<lparr>m_issue_queue := tl (m_issue_queue s),
       m_RAT := (if use_rd (getExeFlags (hd (m_issue_queue s)))
                 then RAT_set (m_RAT s) (getRd (hd (m_issue_queue s))) (rob_tail (m_ROB s))
                 else m_RAT s),
       m_ROB := snd (ROB_allocate (m_ROB s) (hd (m_issue_queue s))),
       m_RS := (m_RS s)[k := \<lparr>entry_valid = True, entry_running = False,
                  entry_instr = hd (m_issue_queue s), entry_rob_index = rob_tail (m_ROB s),
                  entry_rs1_tag = t1, entry_rs2_tag = t2, entry_rs1_data = d1,
                  entry_rs2_data = d2\<rparr>],
       m_RST := ((m_RST s)(t1 \<mapsto> k))(t2 \<mapsto> k)\<rparr>)"
proof -
  from rs obtain k where k: "free_slot (m_RS s) = Some k"
    by (auto simp add: RS_full_def)
  with q rs rob o1 o2 show ?thesis
    by (simp add: issue_def Let_def ROB_allocate_def RS_issue_def)
qed

text \<open>
  C9. Whenever the issue stage stalls (issue queue empty, or RS full, or ROB full), the
  issue step returns the core as it found it: no ROB entry is allocated, no RAT entry is
  set, no reservation station is issued, no RST entry is written, and the issue queue is
  not popped.
\<close>

theorem issue_stall:
  assumes "m_issue_queue s = [] \<or> RS_full (m_RS s) \<or> ROB_full (m_ROB s)"
  shows "issue s = Inr s"
  using assms by (auto simp add: issue_def Let_def)

text \<open>
  A fresh core with an empty issue queue; a core whose two reservation stations are taken;
  a core whose single ROB entry is taken.
\<close>

theorem issue_stall_witness:
  "m_issue_queue (reset_core 2 4) = [] \<and> issue (reset_core 2 4) = Inr (reset_core 2 4)
   \<and> m_issue_queue ex_rs_full \<noteq> [] \<and> RS_full (m_RS ex_rs_full)
   \<and> issue ex_rs_full = Inr ex_rs_full
   \<and> m_issue_queue ex_rob_full \<noteq> [] \<and> \<not> RS_full (m_RS ex_rob_full)
   \<and> ROB_full (m_ROB ex_rob_full) \<and> issue ex_rob_full = Inr ex_rob_full"
proof -
  have a: "m_issue_queue (reset_core 2 4) = []"
    by (simp add: reset_core_def)
  have b: "m_issue_queue ex_rs_full \<noteq> [] \<and> RS_full (m_RS ex_rs_full)"
    by code_simp
  have c: "m_issue_queue ex_rob_full \<noteq> [] \<and> \<not> RS_full (m_RS ex_rob_full)
      \<and> ROB_full (m_ROB ex_rob_full)"
    by code_simp
  from a b c issue_stall [of "reset_core 2 4"] issue_stall [of ex_rs_full]
    issue_stall [of ex_rob_full]
  show ?thesis
    by simp
qed

text \<open>
  C8. When an instruction is issued (no stall, and the register-file reads in range), it
  is placed in a free reservation station, and for each source register rs1, rs2 that it
  uses: if the RAT maps the register to a ROB index whose entry is ready, the operand data
  is that entry's result and the tag is -1; if the entry is not ready, the tag is that ROB
  index; if the RAT has no mapping, the operand data is the register-file value and the
  tag is -1.
\<close>

theorem issue_operand_sources:
  assumes q: "m_issue_queue s = instr # rest"
    and rs: "\<not> RS_full (m_RS s)" and rob: "\<not> ROB_full (m_ROB s)"
    and b1: "use_rs1 (getExeFlags instr) \<Longrightarrow> m_RAT s (getRs1 instr) = None
               \<Longrightarrow> unat (getRs1 instr) < length (m_reg_file s)"
    and b2: "use_rs2 (getExeFlags instr) \<Longrightarrow> m_RAT s (getRs2 instr) = None
               \<Longrightarrow> unat (getRs2 instr) < length (m_reg_file s)"
  shows "\<exists>s' k. issue s = Inr s' \<and> k < length (m_RS s) \<and> \<not> entry_valid (m_RS s ! k)
    \<and> entry_valid (m_RS s' ! k) \<and> entry_instr (m_RS s' ! k) = instr
    \<and> (use_rs1 (getExeFlags instr) \<longrightarrow>
          operand_source_spec s (getRs1 instr)
            (entry_rs1_data (m_RS s' ! k)) (entry_rs1_tag (m_RS s' ! k)))
    \<and> (use_rs2 (getExeFlags instr) \<longrightarrow>
          operand_source_spec s (getRs2 instr)
            (entry_rs2_data (m_RS s' ! k)) (entry_rs2_tag (m_RS s' ! k)))"
proof -
  from read_operand_returns [of "use_rs1 (getExeFlags instr)" s "getRs1 instr"] b1
  obtain d1 t1 where o1:
    "read_operand s (use_rs1 (getExeFlags instr)) (getRs1 instr) = Inr (d1, t1)"
    by blast
  from read_operand_returns [of "use_rs2 (getExeFlags instr)" s "getRs2 instr"] b2
  obtain d2 t2 where o2:
    "read_operand s (use_rs2 (getExeFlags instr)) (getRs2 instr) = Inr (d2, t2)"
    by blast
  from q have hd: "hd (m_issue_queue s) = instr" and ne: "m_issue_queue s \<noteq> []"
    by simp_all
  from issue_result [OF ne rs rob] o1 o2 hd
  obtain k s' where k: "free_slot (m_RS s) = Some k" and s': "issue s = Inr s'"
    and e: "m_RS s' = (m_RS s)[k := \<lparr>entry_valid = True, entry_running = False,
                  entry_instr = instr, entry_rob_index = rob_tail (m_ROB s),
                  entry_rs1_tag = t1, entry_rs2_tag = t2, entry_rs1_data = d1,
                  entry_rs2_data = d2\<rparr>]"
    by fastforce
  from free_slot_Some [OF k] have kl: "k < length (m_RS s)" and kv: "\<not> entry_valid (m_RS s ! k)"
    by simp_all
  have s1: "use_rs1 (getExeFlags instr) \<Longrightarrow> operand_source_spec s (getRs1 instr) d1 t1"
    using read_operand_cases [OF o1]
    by (auto simp add: operand_source_spec_def split: option.splits)
  have s2: "use_rs2 (getExeFlags instr) \<Longrightarrow> operand_source_spec s (getRs2 instr) d2 t2"
    using read_operand_cases [OF o2]
    by (auto simp add: operand_source_spec_def split: option.splits)
  from s' kl kv e s1 s2 show ?thesis
    by auto
qed

text \<open>
  \<open>ADDI x1, x0, 5\<close> reads x0 from the register file; \<open>ADDI x2, x1, 2\<close> gets the tag 0
  while ROB entry 0 is pending, and the result 5 once ROB entry 0 is ready.
\<close>

theorem issue_operand_sources_witness:
  "(\<exists>s' k. issue ex_queued = Inr s' \<and> entry_valid (m_RS s' ! k)
       \<and> m_RAT ex_queued 0 = None
       \<and> entry_rs1_data (m_RS s' ! k) = m_reg_file ex_queued ! 0
       \<and> entry_rs1_tag (m_RS s' ! k) = - 1)
   \<and> (\<exists>s' k. issue ex_pending_queued = Inr s' \<and> entry_valid (m_RS s' ! k)
       \<and> m_RAT ex_pending_queued 1 = Some 0
       \<and> \<not> ready (ROB_get_entry (m_ROB ex_pending_queued) 0)
       \<and> entry_rs1_tag (m_RS s' ! k) = 0)
   \<and> (\<exists>s' k. issue ex_ready_queued = Inr s' \<and> entry_valid (m_RS s' ! k)
       \<and> m_RAT ex_ready_queued 1 = Some 0
       \<and> ready (ROB_get_entry (m_ROB ex_ready_queued) 0)
       \<and> result (ROB_get_entry (m_ROB ex_ready_queued) 0) = 5
       \<and> entry_rs1_data (m_RS s' ! k) = 5 \<and> entry_rs1_tag (m_RS s' ! k) = - 1)"
proof -
  have a: "m_issue_queue ex_queued = hd (m_issue_queue ex_queued) # tl (m_issue_queue ex_queued)"
    "\<not> RS_full (m_RS ex_queued)" "\<not> ROB_full (m_ROB ex_queued)"
    "use_rs1 (getExeFlags (hd (m_issue_queue ex_queued)))"
    "\<not> use_rs2 (getExeFlags (hd (m_issue_queue ex_queued)))"
    "getRs1 (hd (m_issue_queue ex_queued)) = 0"
    "length (m_reg_file ex_queued) = 32"
    "m_RAT ex_queued 0 = None"
    by code_simp+
  have b: "m_issue_queue ex_pending_queued
        = hd (m_issue_queue ex_pending_queued) # tl (m_issue_queue ex_pending_queued)"
    "\<not> RS_full (m_RS ex_pending_queued)" "\<not> ROB_full (m_ROB ex_pending_queued)"
    "use_rs1 (getExeFlags (hd (m_issue_queue ex_pending_queued)))"
    "\<not> use_rs2 (getExeFlags (hd (m_issue_queue ex_pending_queued)))"
    "getRs1 (hd (m_issue_queue ex_pending_queued)) = 1"
    "m_RAT ex_pending_queued 1 = Some 0"
    "\<not> ready (ROB_get_entry (m_ROB ex_pending_queued) 0)"
    by code_simp+
  have c: "m_issue_queue ex_ready_queued
        = hd (m_issue_queue ex_ready_queued) # tl (m_issue_queue ex_ready_queued)"
    "\<not> RS_full (m_RS ex_ready_queued)" "\<not> ROB_full (m_ROB ex_ready_queued)"
    "use_rs1 (getExeFlags (hd (m_issue_queue ex_ready_queued)))"
    "\<not> use_rs2 (getExeFlags (hd (m_issue_queue ex_ready_queued)))"
    "getRs1 (hd (m_issue_queue ex_ready_queued)) = 1"
    "m_RAT ex_ready_queued 1 = Some 0"
    "ready (ROB_get_entry (m_ROB ex_ready_queued) 0)"
    "result (ROB_get_entry (m_ROB ex_ready_queued) 0) = 5"
    by code_simp+
  from issue_operand_sources [OF a(1) a(2) a(3)] a
  have "\<exists>s' k. issue ex_queued = Inr s' \<and> entry_valid (m_RS s' ! k)
       \<and> entry_rs1_data (m_RS s' ! k) = m_reg_file ex_queued ! 0
       \<and> entry_rs1_tag (m_RS s' ! k) = - 1"
    by (fastforce simp add: operand_source_spec_def)
  moreover from issue_operand_sources [OF b(1) b(2) b(3)] b
  have "\<exists>s' k. issue ex_pending_queued = Inr s' \<and> entry_valid (m_RS s' ! k)
       \<and> entry_rs1_tag (m_RS s' ! k) = 0"
    by (fastforce simp add: operand_source_spec_def)
  moreover from issue_operand_sources [OF c(1) c(2) c(3)] c
  have "\<exists>s' k. issue ex_ready_queued = Inr s' \<and> entry_valid (m_RS s' ! k)
       \<and> entry_rs1_data (m_RS s' ! k) = 5 \<and> entry_rs1_tag (m_RS s' ! k) = - 1"
    by (fastforce simp add: operand_source_spec_def)
  ultimately show ?thesis
    using a(8) b(7) b(8) c(7) c(8) c(9) by simp
qed

section \<open>The commit stage\<close>

text \<open>
  C5. A commit step whose ROB head is ready and has \<open>use_rd\<close> set (with rd inside the
  register file and the retired count not above the fetched count) writes the result to
  \<open>reg_file[rd]\<close>; it clears \<open>RAT[rd]\<close> if and only if \<open>RAT[rd]\<close> equals the head's
  ROB index, and otherwise leaves the RAT as it is, so the mapping of a later in-flight
  writer survives.
\<close>

theorem commit_writes_rd:
  assumes ne: "\<not> ROB_empty (m_ROB s)"
    and h: "head = ROB_get_entry (m_ROB s) (ROB_head_index (m_ROB s))"
    and r: "ready head"
    and u: "use_rd (getExeFlags (rob_instr head))"
    and rd: "rd = getRd (rob_instr head)"
    and b: "unat rd < length (m_reg_file s)"
    and a: "m_perf_stats_instrs s \<le> m_fetched_instrs s"
  shows "\<exists>s'. commit s = Inr s'
    \<and> m_reg_file s' = (m_reg_file s)[unat rd := result head]
    \<and> m_reg_file s' ! unat rd = result head
    \<and> (m_RAT s rd = Some (ROB_head_index (m_ROB s)) \<longrightarrow> m_RAT s' = (m_RAT s)(rd := None))
    \<and> (m_RAT s rd \<noteq> Some (ROB_head_index (m_ROB s)) \<longrightarrow> m_RAT s' = m_RAT s)"
  using assms
  by (auto simp add: commit_def Let_def RAT_get_def RAT_clear_def split: option.splits)

text \<open>
  The single writer of x1 commits and clears \<open>RAT[1]\<close>; in the spec's scenario 7 the
  first writer commits and \<open>RAT[1]\<close> keeps pointing to the second.
\<close>

theorem commit_writes_rd_witness:
  "(\<exists>s'. commit ex_ready = Inr s' \<and> m_reg_file s' ! 1 = 5
       \<and> m_RAT ex_ready 1 = Some 0 \<and> m_RAT s' 1 = None)
   \<and> (\<exists>s'. commit ex_two_writers_ready = Inr s' \<and> m_reg_file s' ! 1 = 5
       \<and> m_RAT ex_two_writers_ready 1 = Some 1 \<and> m_RAT s' 1 = Some 1)"
proof -
  let ?h1 = "ROB_get_entry (m_ROB ex_ready) (ROB_head_index (m_ROB ex_ready))"
  let ?h2 = "ROB_get_entry (m_ROB ex_two_writers_ready)
               (ROB_head_index (m_ROB ex_two_writers_ready))"
  have a1: "\<not> ROB_empty (m_ROB ex_ready)" and a2: "ready ?h1"
    and a3: "use_rd (getExeFlags (rob_instr ?h1))"
    and a4: "getRd (rob_instr ?h1) = 1" and a5: "length (m_reg_file ex_ready) = 32"
    and a6: "m_perf_stats_instrs ex_ready \<le> m_fetched_instrs ex_ready"
    and a7: "result ?h1 = 5" and a8: "ROB_head_index (m_ROB ex_ready) = 0"
    and a9: "m_RAT ex_ready 1 = Some 0"
    by code_simp+
  have b1: "\<not> ROB_empty (m_ROB ex_two_writers_ready)" and b2: "ready ?h2"
    and b3: "use_rd (getExeFlags (rob_instr ?h2))"
    and b4: "getRd (rob_instr ?h2) = 1"
    and b5: "length (m_reg_file ex_two_writers_ready) = 32"
    and b6: "m_perf_stats_instrs ex_two_writers_ready \<le> m_fetched_instrs ex_two_writers_ready"
    and b7: "result ?h2 = 5" and b8: "ROB_head_index (m_ROB ex_two_writers_ready) = 0"
    and b9: "m_RAT ex_two_writers_ready 1 = Some 1"
    by code_simp+
  from commit_writes_rd [OF a1 refl a2 a3 refl _ a6] a4 a5 a7 a8 a9
  have "\<exists>s'. commit ex_ready = Inr s' \<and> m_reg_file s' ! 1 = 5 \<and> m_RAT s' 1 = None"
    by auto
  moreover
  from commit_writes_rd [OF b1 refl b2 b3 refl _ b6] b4 b5 b7 b8 b9
  have "\<exists>s'. commit ex_two_writers_ready = Inr s' \<and> m_reg_file s' ! 1 = 5
      \<and> m_RAT s' 1 = Some 1"
    by auto
  ultimately show ?thesis
    using a9 b9 by simp
qed

section \<open>Register x0\<close>

lemma decode_op_use_rd:
  "decode_op opc f3 f7 imm fl = Return (alu, br, fl') \<Longrightarrow> use_rd fl' = use_rd fl"
  by (cases opc)
    (auto simp add: decode_op_def decode_sys_def Let_def split: outcome.splits if_splits)

lemma decode_rd0:
  assumes "decode c pc u = Return (Some i)"
  shows "rd0_ok i"
proof -
  from assms obtain opcode flags1 imm alu_op br_op exe_flags where
    op: "decode_op opcode (instr_bits c 14 12) (instr_bits c 31 25) imm
       (if use_rd flags1 \<and> instr_bits c 11 7 = 0
        then flags1\<lparr>use_rd := False\<rparr> else flags1) = Return (alu_op, br_op, exe_flags)"
    and i: "getExeFlags i = exe_flags" "getRd i = instr_bits c 11 7"
    by (rule decode_SomeD) simp
  from decode_op_use_rd [OF op] i show ?thesis
    by (auto simp add: rd0_ok_def split: if_splits)
qed

lemma mod_add_inj_le:
  fixes h a b N :: nat
  assumes "a \<le> b" and "b < N" and "(h + a) mod N = (h + b) mod N"
  shows "a = b"
proof -
  from assms(1) have "h + a \<le> h + b"
    by simp
  from mod_eq_dvd_iff_nat [OF this, of N] assms(3) have "N dvd (h + b) - (h + a)"
    by simp
  then have "N dvd b - a"
    by simp
  moreover from assms(2) have "b - a < N"
    by simp
  ultimately have "b - a = 0"
    using nat_dvd_not_less by blast
  with assms(1) show ?thesis
    by simp
qed

lemma mod_add_inj:
  fixes h k c N :: nat
  assumes "(h + k) mod N = (h + c) mod N" and "k < N" and "c < N"
  shows "k = c"
proof (cases "k \<le> c")
  case True
  with assms show ?thesis
    by (auto dest: mod_add_inj_le)
next
  case False
  then have "c \<le> k"
    by simp
  with assms have "c = k"
    by (auto dest: mod_add_inj_le [of c k N h])
  then show ?thesis
    by simp
qed

lemma ROB_wf_allocate:
  assumes wf: "ROB_wf rob" and nf: "\<not> ROB_full rob" and ok: "rd0_ok instr"
  shows "ROB_wf (snd (ROB_allocate rob instr))"
proof -
  let ?N = "length (rob_store rob)"
  from wf have h: "rob_head rob < ?N" and c: "rob_count rob \<le> ?N"
    and t: "rob_tail rob = (rob_head rob + rob_count rob) mod ?N"
    and e: "\<And>k. k < rob_count rob \<Longrightarrow>
              rd0_ok (rob_instr (rob_store rob ! ((rob_head rob + k) mod ?N)))"
    by (simp_all add: ROB_wf_def)
  from c nf have c': "rob_count rob < ?N"
    by (simp add: ROB_full_def)
  from h have pos: "0 < ?N"
    by (cases "rob_store rob") simp_all
  then have tl: "rob_tail rob < ?N"
    unfolding t by (rule mod_less_divisor)
  have t': "(rob_tail rob + 1) mod ?N = (rob_head rob + (rob_count rob + 1)) mod ?N"
    by (simp add: t mod_Suc_eq)
  have "rd0_ok (rob_instr ((rob_store rob)
            [rob_tail rob := \<lparr>rob_instr = instr, result = 0, ready = False\<rparr>]
          ! ((rob_head rob + k) mod ?N)))" if k: "k < rob_count rob + 1" for k
  proof (cases "k = rob_count rob")
    case True
    with tl ok show ?thesis
      by (simp add: t)
  next
    case False
    with k have kc: "k < rob_count rob"
      by simp
    with c' have "(rob_head rob + k) mod ?N \<noteq> rob_tail rob"
      unfolding t using mod_add_inj [of "rob_head rob" k ?N "rob_count rob"] by auto
    with e [OF kc] show ?thesis
      by simp
  qed
  with h c' t' show ?thesis
    by (simp add: ROB_wf_def ROB_allocate_def)
qed

lemma rob_instr_update:
  "rob_instr (xs[i := (xs ! i)\<lparr>result := v, ready := b\<rparr>] ! j) = rob_instr (xs ! j)"
  by (cases "i < length xs"; cases "i = j") (simp_all add: list_update_beyond)

lemma ROB_wf_update: "ROB_wf rob \<Longrightarrow> ROB_wf (ROB_update rob d)"
  by (simp add: ROB_wf_def ROB_update_def rob_instr_update)

lemma ROB_wf_head:
  assumes "ROB_wf rob" and "\<not> ROB_empty rob"
  shows "rd0_ok (rob_instr (ROB_get_entry rob (ROB_head_index rob)))"
proof -
  from assms have "0 < rob_count rob" and "rob_head rob < length (rob_store rob)"
    by (simp_all add: ROB_wf_def ROB_empty_def)
  moreover from assms(1) have "\<And>k. k < rob_count rob \<Longrightarrow>
      rd0_ok (rob_instr (rob_store rob ! ((rob_head rob + k) mod length (rob_store rob))))"
    by (simp add: ROB_wf_def)
  ultimately have "rd0_ok (rob_instr (rob_store rob
      ! ((rob_head rob + 0) mod length (rob_store rob))))"
    by blast
  with \<open>rob_head rob < length (rob_store rob)\<close> show ?thesis
    by (simp add: ROB_get_entry_def ROB_head_index_def)
qed

lemma ROB_wf_pop:
  assumes wf: "ROB_wf rob" and ne: "\<not> ROB_empty rob"
  shows "ROB_wf (ROB_pop rob)"
proof -
  let ?N = "length (rob_store rob)"
  from wf have h: "rob_head rob < ?N" and c: "rob_count rob \<le> ?N"
    and t: "rob_tail rob = (rob_head rob + rob_count rob) mod ?N"
    and e: "\<And>k. k < rob_count rob \<Longrightarrow>
              rd0_ok (rob_instr (rob_store rob ! ((rob_head rob + k) mod ?N)))"
    by (simp_all add: ROB_wf_def)
  from ne have pos: "0 < rob_count rob"
    by (simp add: ROB_empty_def)
  have idx: "((rob_head rob + 1) mod ?N + k) mod ?N = (rob_head rob + (k + 1)) mod ?N" for k
  proof -
    have "((rob_head rob + 1) mod ?N + k) mod ?N = ((rob_head rob + 1) + k) mod ?N"
      by (rule mod_add_left_eq)
    then show ?thesis
      by (simp add: ac_simps)
  qed
  from pos have "rob_count rob - 1 + 1 = rob_count rob"
    by simp
  with idx [of "rob_count rob - 1"]
  have t': "rob_tail rob = ((rob_head rob + 1) mod ?N + (rob_count rob - 1)) mod ?N"
    by (simp add: t)
  have "rd0_ok (rob_instr (rob_store rob ! (((rob_head rob + 1) mod ?N + k) mod ?N)))"
    if "k < rob_count rob - 1" for k
  proof -
    from that have "k + 1 < rob_count rob"
      by simp
    from e [OF this] show ?thesis
      by (simp only: idx)
  qed
  moreover from h have "0 < ?N"
    by (cases "rob_store rob") simp_all
  then have "(rob_head rob + 1) mod ?N < ?N"
    by (rule mod_less_divisor)
  moreover from c have "rob_count rob - 1 \<le> ?N"
    by simp
  ultimately show ?thesis
    using t' by (simp add: ROB_wf_def ROB_pop_def)
qed

lemma core_inv_initial: "initial s \<Longrightarrow> core_inv s"
  by (simp add: initial_def core_inv_def ROB_wf_def)

lemma core_inv_front_end:
  assumes "core_inv s" and "front_end s c pc u = Some s'"
  shows "core_inv s'"
proof -
  from assms(2) obtain i where d: "decode c pc u = Return (Some i)"
    and s': "s' = s\<lparr>m_issue_queue := m_issue_queue s @ [i],
                     m_fetched_instrs := m_fetched_instrs s + 1\<rparr>"
    by (auto simp add: front_end_def split: outcome.splits option.splits)
  from decode_rd0 [OF d] assms(1) show ?thesis
    by (simp add: s' core_inv_def)
qed

lemma issue_frame:
  assumes "issue s = Inr s'"
  shows "s' = s \<or>
    (m_issue_queue s \<noteq> [] \<and> \<not> ROB_full (m_ROB s)
      \<and> m_reg_file s' = m_reg_file s \<and> m_issue_queue s' = tl (m_issue_queue s)
      \<and> m_ROB s' = snd (ROB_allocate (m_ROB s) (hd (m_issue_queue s))))"
  using assms
  by (auto simp add: issue_def Let_def split: if_splits sum.splits prod.splits)

lemma core_inv_issue:
  assumes inv: "core_inv s" and i: "issue s = Inr s'"
  shows "core_inv s'"
proof -
  from issue_frame [OF i] show ?thesis
  proof
    assume "s' = s"
    with inv show ?thesis by simp
  next
    assume a: "m_issue_queue s \<noteq> [] \<and> \<not> ROB_full (m_ROB s)
      \<and> m_reg_file s' = m_reg_file s \<and> m_issue_queue s' = tl (m_issue_queue s)
      \<and> m_ROB s' = snd (ROB_allocate (m_ROB s) (hd (m_issue_queue s)))"
    then obtain x xs where q: "m_issue_queue s = x # xs"
      by (cases "m_issue_queue s") auto
    with inv have "rd0_ok x" and "list_all rd0_ok xs" and "ROB_wf (m_ROB s)"
      by (simp_all add: core_inv_def)
    with a q inv show ?thesis
      by (simp add: core_inv_def ROB_wf_allocate)
  qed
qed

lemma execute_frame:
  assumes "execute fu_execute fu_issue locked s = Inr s'"
  shows "m_reg_file s' = m_reg_file s \<and> m_issue_queue s' = m_issue_queue s
    \<and> m_ROB s' = m_ROB s"
  using assms
  by (auto simp add: execute_def Let_def split: sum.splits prod.splits)

lemma core_inv_execute:
  "core_inv s \<Longrightarrow> execute fu_execute fu_issue locked s = Inr s' \<Longrightarrow> core_inv s'"
  by (drule execute_frame) (simp add: core_inv_def)

lemma core_inv_writeback: "core_inv s \<Longrightarrow> core_inv (writeback s)"
  by (auto simp add: core_inv_def writeback_def ROB_wf_update split: option.splits)

lemma unat_rd_nonzero: "w \<noteq> 0 \<Longrightarrow> unat w \<noteq> 0" for w :: u32
  by (simp add: unat_eq_0)

lemma commit_frame:
  assumes "commit s = Inr s'"
  shows "s' = s \<or>
    (\<not> ROB_empty (m_ROB s) \<and> m_issue_queue s' = m_issue_queue s
      \<and> m_ROB s' = ROB_pop (m_ROB s)
      \<and> m_reg_file s' =
          (if use_rd (getExeFlags (rob_instr (ROB_get_entry (m_ROB s)
                 (ROB_head_index (m_ROB s)))))
           then (m_reg_file s)
                  [unat (getRd (rob_instr (ROB_get_entry (m_ROB s)
                          (ROB_head_index (m_ROB s))))) :=
                     result (ROB_get_entry (m_ROB s) (ROB_head_index (m_ROB s)))]
           else m_reg_file s))"
  using assms
  by (auto simp add: commit_def Let_def split: if_splits)

lemma core_inv_commit:
  assumes inv: "core_inv s" and c: "commit s = Inr s'"
  shows "core_inv s'"
proof -
  let ?head = "ROB_get_entry (m_ROB s) (ROB_head_index (m_ROB s))"
  from commit_frame [OF c] show ?thesis
  proof
    assume "s' = s"
    with inv show ?thesis by simp
  next
    assume a: "\<not> ROB_empty (m_ROB s) \<and> m_issue_queue s' = m_issue_queue s
      \<and> m_ROB s' = ROB_pop (m_ROB s)
      \<and> m_reg_file s' =
          (if use_rd (getExeFlags (rob_instr ?head))
           then (m_reg_file s)[unat (getRd (rob_instr ?head)) := result ?head]
           else m_reg_file s)"
    from inv have wf: "ROB_wf (m_ROB s)" and r0: "m_reg_file s ! 0 = 0"
      and q: "list_all rd0_ok (m_issue_queue s)"
      by (simp_all add: core_inv_def)
    from a wf have "rd0_ok (rob_instr ?head)"
      by (simp add: ROB_wf_head)
    then have "use_rd (getExeFlags (rob_instr ?head)) \<Longrightarrow> unat (getRd (rob_instr ?head)) \<noteq> 0"
      by (auto simp add: rd0_ok_def dest: unat_rd_nonzero)
    with a r0 have "m_reg_file s' ! 0 = 0"
      by auto
    with a wf q show ?thesis
      by (simp add: core_inv_def ROB_wf_pop)
  qed
qed

lemma reachable_core_inv: "reachable s \<Longrightarrow> core_inv s"
proof (induction rule: reachable.induct)
  case (start s)
  then show ?case by (rule core_inv_initial)
next
  case (fetch s instr_code PC uuid s')
  then show ?case by (auto intro: core_inv_front_end)
next
  case (issue s s')
  then show ?case by (auto intro: core_inv_issue)
next
  case (execute s fu_execute fu_issue locked s')
  then show ?case by (auto intro: core_inv_execute)
next
  case (writeback s)
  then show ?case by (auto intro: core_inv_writeback)
next
  case (commit s s')
  then show ?case by (auto intro: core_inv_commit)
qed

text \<open>
  C6. For every instruction word with rd = 0 that is decoded, \<open>use_rd\<close> is clear in the
  descriptor; a commit whose head does not have \<open>use_rd\<close> leaves the register file as
  it is; and in every state a program can reach from a register file whose element 0 is
  zero, \<open>reg_file[0]\<close> reads 0.
\<close>

theorem x0_reads_zero:
  "(decode c pc u = Return (Some i) \<longrightarrow> instr_bits c 11 7 = 0
      \<longrightarrow> \<not> use_rd (getExeFlags i))
   \<and> (commit s = Inr s'
      \<longrightarrow> \<not> use_rd (getExeFlags (rob_instr (ROB_get_entry (m_ROB s)
                (ROB_head_index (m_ROB s)))))
      \<longrightarrow> m_reg_file s' = m_reg_file s)
   \<and> (reachable t \<longrightarrow> m_reg_file t ! 0 = 0)"
proof (intro conjI impI)
  assume d: "decode c pc u = Return (Some i)" and z: "instr_bits c 11 7 = 0"
  from d have "getRd i = instr_bits c 11 7"
    by (rule decode_SomeD) simp
  with decode_rd0 [OF d] z show "\<not> use_rd (getExeFlags i)"
    by (simp add: rd0_ok_def)
next
  assume "commit s = Inr s'"
    and "\<not> use_rd (getExeFlags (rob_instr (ROB_get_entry (m_ROB s)
                (ROB_head_index (m_ROB s)))))"
  then show "m_reg_file s' = m_reg_file s"
    by (auto dest: commit_frame)
next
  assume "reachable t"
  then show "m_reg_file t ! 0 = 0"
    by (auto dest: reachable_core_inv simp add: core_inv_def)
qed

text \<open>\<open>ADDI x0, x0, 5\<close> is fetched, issued, executed, written back and committed.\<close>

lemma decode_ADDI_x0:
  "decode 0x00500013 0 0 = Return (Some
    \<lparr>getId = 0, getPC = 0, getOpcode = Opcode_I, getRd = 0, getRs1 = 0, getRs2 = 5,
     getImm = 5, getFunc3 = 0, getFunc7 = 0, getAluOp = AluOp_ADD, getBrOp = BrOp_NONE,
     getExeFlags = no_flags\<lparr>use_rs1 := True, use_imm := True, alu_s2_imm := True\<rparr>,
     getFUType = FUType_ALU\<rparr>)"
  by code_simp

lemma reachable_ex_x0:
  "commit ex_x0_ready = Inr ex_x0_committed \<and> reachable ex_x0_committed"
proof -
  have r0: "reachable (reset_core 2 4)"
    by (rule reachable.start) (simp add: initial_def reset_core_def)
  have "\<not> Option.is_none (front_end (reset_core 2 4) 0x00500013 0 0)"
    by code_simp
  then have f: "front_end (reset_core 2 4) 0x00500013 0 0 = Some ex_x0_queued"
    by (simp add: ex_x0_queued_def Option.is_none_def)
  have r1: "reachable ex_x0_queued"
    by (rule reachable.fetch [OF r0 f])
  have "\<not> isl (issue ex_x0_queued)"
    by code_simp
  then have i: "issue ex_x0_queued = Inr ex_x0_issued"
    by (simp add: ex_x0_issued_def)
  have r2: "reachable ex_x0_issued"
    by (rule reachable.issue [OF r1 i])
  have "\<not> isl (execute example_fu_execute example_fu_issue example_locked ex_x0_issued)"
    by code_simp
  then have e: "execute example_fu_execute example_fu_issue example_locked ex_x0_issued
      = Inr ex_x0_executed"
    by (simp add: ex_x0_executed_def)
  have r3: "reachable ex_x0_executed"
    by (rule reachable.execute [OF r2 e])
  have r4: "reachable ex_x0_ready"
    unfolding ex_x0_ready_def by (rule reachable.writeback [OF r3])
  have "\<not> isl (commit ex_x0_ready)"
    by code_simp
  then have c: "commit ex_x0_ready = Inr ex_x0_committed"
    by (simp add: ex_x0_committed_def)
  from c reachable.commit [OF r4 c] show ?thesis
    by simp
qed

theorem x0_reads_zero_witness:
  "(\<exists>i. decode 0x00500013 0 0 = Return (Some i) \<and> getRd i = 0
        \<and> \<not> use_rd (getExeFlags i))
   \<and> commit ex_x0_ready = Inr ex_x0_committed
   \<and> m_perf_stats_instrs ex_x0_committed = 1
   \<and> m_reg_file ex_x0_committed = m_reg_file ex_x0_ready
   \<and> reachable ex_x0_committed \<and> m_reg_file ex_x0_committed ! 0 = 0"
proof -
  obtain i where d: "decode 0x00500013 0 0 = Return (Some i)" and rd: "getRd i = 0"
    using decode_ADDI_x0 by simp
  have z: "instr_bits 0x00500013 11 7 = 0"
    by code_simp
  have h: "\<not> use_rd (getExeFlags (rob_instr (ROB_get_entry (m_ROB ex_x0_ready)
                (ROB_head_index (m_ROB ex_x0_ready)))))"
    and n: "m_perf_stats_instrs ex_x0_committed = 1"
    by code_simp+
  from x0_reads_zero [of "0x00500013" 0 0 i ex_x0_ready ex_x0_committed ex_x0_committed]
    d rd z h n reachable_ex_x0
  show ?thesis
    by auto
qed

section \<open>The RST at issue\<close>

text \<open>
  C3. The claim: after an instruction is placed in reservation station \<open>rs_index\<close> with
  ROB entry \<open>rob_index\<close>, \<open>RST[rob_index] = rs_index\<close>, and no RST entry at another
  index is written. The code writes \<open>RST_[rs1_rsid]\<close> and \<open>RST_[rs2_rsid]\<close> instead.
  \<open>ADDI x1, x0, 5\<close> issued into a fresh core gets ROB entry 0 and reservation station
  0: \<open>RST[0]\<close> stays unset and \<open>RST[-1]\<close> is set. \<open>ADDI x2, x1, 2\<close> issued next gets
  ROB entry 1, reservation station 1 and the operand tag 0: \<open>RST[1]\<close> stays unset, and
  \<open>RST[0]\<close> and \<open>RST[-1]\<close> are set to 1.
\<close>

theorem issue_writes_RST_at_operand_tags:
  "issue ex_queued = Inr ex_issued
   \<and> entry_valid (m_RS ex_issued ! 0) \<and> entry_rob_index (m_RS ex_issued ! 0) = 0
   \<and> m_RST ex_queued 0 = None \<and> m_RST ex_queued (- 1) = None
   \<and> m_RST ex_issued 0 = None \<and> m_RST ex_issued (- 1) = Some 0
   \<and> \<not> isl (issue ex_pending_queued)
   \<and> entry_valid (m_RS (projr (issue ex_pending_queued)) ! 1)
   \<and> entry_rob_index (m_RS (projr (issue ex_pending_queued)) ! 1) = 1
   \<and> entry_rs1_tag (m_RS (projr (issue ex_pending_queued)) ! 1) = 0
   \<and> m_RST (projr (issue ex_pending_queued)) 1 = None
   \<and> m_RST (projr (issue ex_pending_queued)) 0 = Some 1
   \<and> m_RST (projr (issue ex_pending_queued)) (- 1) = Some 1"
proof -
  have "\<not> isl (issue ex_queued)"
    by code_simp
  then have "issue ex_queued = Inr ex_issued"
    by (simp add: ex_issued_def)
  moreover have "entry_valid (m_RS ex_issued ! 0) \<and> entry_rob_index (m_RS ex_issued ! 0) = 0
   \<and> m_RST ex_queued 0 = None \<and> m_RST ex_queued (- 1) = None
   \<and> m_RST ex_issued 0 = None \<and> m_RST ex_issued (- 1) = Some 0"
    by code_simp
  moreover have "\<not> isl (issue ex_pending_queued)
   \<and> entry_valid (m_RS (projr (issue ex_pending_queued)) ! 1)
   \<and> entry_rob_index (m_RS (projr (issue ex_pending_queued)) ! 1) = 1
   \<and> entry_rs1_tag (m_RS (projr (issue ex_pending_queued)) ! 1) = 0
   \<and> m_RST (projr (issue ex_pending_queued)) 1 = None
   \<and> m_RST (projr (issue ex_pending_queued)) 0 = Some 1
   \<and> m_RST (projr (issue ex_pending_queued)) (- 1) = Some 1"
    by code_simp
  ultimately show ?thesis
    by simp
qed

section \<open>Publishing on the CDB\<close>

text \<open>The scan clears every unit that reports done, not only the first.\<close>

lemma publish_clears_every_done:
  "fst (publish fus cdb) = map (\<lambda>fu. if fu_done fu then FU_clear fu else fu) fus"
  by (induction fus arbitrary: cdb) (simp_all add: Let_def case_prod_beta)

text \<open>
  C2. The claim: among the units that report done, only the first is published and
  cleared in a cycle. With the ALU and the BRU both done and the CDB empty, one execute
  step (whose tick leaves the units as they are) clears both units; the CDB holds the
  ALU's result, and the BRU's result 7 is on no unit and not on the CDB.
\<close>

theorem execute_clears_two_done:
  "map fu_done (m_FUs ex_two_done) = [True, True, False, False]
   \<and> m_CDB ex_two_done = None
   \<and> \<not> isl (execute id example_fu_issue example_locked ex_two_done)
   \<and> map fu_done (m_FUs (projr (execute id example_fu_issue example_locked ex_two_done)))
       = [False, False, False, False]
   \<and> m_CDB (projr (execute id example_fu_issue example_locked ex_two_done))
       = Some \<lparr>cdb_result = 5, cdb_rob_index = 0, cdb_rs_index = 0\<rparr>"
  by code_simp

end
